theory Spec2Isabelle
  imports Main "HOL-Library.Sublist"
begin

section \<open>JavaScript values and driver errors\<close>

text \<open>
  The scripts catch \<^verbatim>\<open>error: any\<close> and read \<^verbatim>\<open>error.code\<close>,
  \<^verbatim>\<open>error.codeName\<close>, \<^verbatim>\<open>error.message\<close> and
  \<^verbatim>\<open>error.hasErrorLabel\<close>. A property that is missing reads as
  \<^verbatim>\<open>undefined\<close>; a server error carries a numeric code, a Node system error a
  string code. The comparisons of the scripts are all \<^verbatim>\<open>===\<close>, which on these
  primitive values is equality of the tagged value.
\<close>

datatype jsval = JSUndefined | JSNumber int | JSString string

text \<open>
  The value caught is an object: every rejection of the MongoDB driver is an
  \<^verbatim>\<open>Error\<close> instance. \<^verbatim>\<open>errorLabels = None\<close> is an error without a
  \<^verbatim>\<open>hasErrorLabel\<close> method (not a driver error); with \<^verbatim>\<open>Some ls\<close>
  the method is present and answers whether the label is one of \<^verbatim>\<open>ls\<close>.
\<close>

record jserror =
  code :: jsval
  codeName :: jsval
  message :: string
  errorLabels :: "string list option"

text \<open>Truthiness, as \<^verbatim>\<open>||\<close> and \<^verbatim>\<open>&&\<close> read a value.\<close>

fun truthy :: "jsval \<Rightarrow> bool" where
  "truthy JSUndefined = False"
| "truthy (JSNumber n) = (n \<noteq> 0)"
| "truthy (JSString s) = (s \<noteq> [])"

text \<open>
  \<^verbatim>\<open>error.hasErrorLabel && error.hasErrorLabel('TransientTransactionError')\<close>
\<close>

definition hasTransientLabel :: "jserror \<Rightarrow> bool" where
  "hasTransientLabel error =
     (case errorLabels error of
        None \<Rightarrow> False
      | Some ls \<Rightarrow> ''TransientTransactionError'' \<in> set ls)"

section \<open>The chains of tests in the catch blocks\<close>

text \<open>
  Each script reports a caught error by the first test of an \<^verbatim>\<open>if / else if\<close>
  chain that holds. The branches, by the line they print:
  \<^item> \<open>OperationTimeout\<close>: "MaxTimeMSExpired: Operation exceeded maxTimeMS timeout";
  \<^item> \<open>WriteConcernTimeout\<close>: "WriteConcernFailed: Write concern could not be satisfied";
  \<^item> \<open>CommitTimeout\<close>: "ExceededTimeLimit: Transaction exceeded maxCommitTimeMS";
  \<^item> \<open>Retryable\<close>: "TransientTransactionError: Transaction can be retried";
  \<^item> \<open>TopologyChange\<close>: "Replica set topology changed during operation";
  \<^item> \<open>Unclassified\<close>: "Other Error:" (or "Error:") followed by the code name or "Unknown".
\<close>

datatype category =
  OperationTimeout | WriteConcernTimeout | CommitTimeout | Retryable | TopologyChange
  | Unclassified

text \<open>\<^verbatim>\<open>runTransaction\<close> (the script with the three timeouts).\<close>

definition classify_runTransaction :: "jserror \<Rightarrow> category" where
  "classify_runTransaction error =
     (let errorCode = code error; errorCodeName = codeName error in
      if errorCodeName = JSString ''MaxTimeMSExpired'' \<or> errorCode = JSNumber 50
        then OperationTimeout
      else if errorCodeName = JSString ''WriteConcernFailed'' \<or> errorCode = JSNumber 64
        then WriteConcernTimeout
      else if errorCodeName = JSString ''ExceededTimeLimit'' \<or> errorCode = JSNumber 262
        then CommitTimeout
      else if hasTransientLabel error
        then Retryable
      else Unclassified)"

text \<open>\<^verbatim>\<open>runTransactionNoTimeout\<close>: the same tests in the same order.\<close>

definition classify_runTransactionNoTimeout :: "jserror \<Rightarrow> category" where
  "classify_runTransactionNoTimeout error =
     (let errorCode = code error; errorCodeName = codeName error in
      if errorCodeName = JSString ''MaxTimeMSExpired'' \<or> errorCode = JSNumber 50
        then OperationTimeout
      else if errorCodeName = JSString ''WriteConcernFailed'' \<or> errorCode = JSNumber 64
        then WriteConcernTimeout
      else if errorCodeName = JSString ''ExceededTimeLimit'' \<or> errorCode = JSNumber 262
        then CommitTimeout
      else if hasTransientLabel error
        then Retryable
      else Unclassified)"

text \<open>\<^verbatim>\<open>runTransactionHangOnCommit\<close>: one more test, after the label.\<close>

definition classify_runTransactionHangOnCommit :: "jserror \<Rightarrow> category" where
  "classify_runTransactionHangOnCommit error =
     (let errorCode = code error; errorCodeName = codeName error in
      if errorCodeName = JSString ''MaxTimeMSExpired'' \<or> errorCode = JSNumber 50
        then OperationTimeout
      else if errorCodeName = JSString ''WriteConcernFailed'' \<or> errorCode = JSNumber 64
        then WriteConcernTimeout
      else if errorCodeName = JSString ''ExceededTimeLimit'' \<or> errorCode = JSNumber 262
        then CommitTimeout
      else if hasTransientLabel error
        then Retryable
      else if errorCodeName = JSString ''NotPrimaryOrSecondary''
              \<or> errorCodeName = JSString ''InterruptedDueToReplStateChange''
        then TopologyChange
      else Unclassified)"

text \<open>\<^verbatim>\<open>runTransactionHangPause\<close>: a single test.\<close>

definition classify_runTransactionHangPause :: "jserror \<Rightarrow> category" where
  "classify_runTransactionHangPause error =
     (let errorCodeName = codeName error in
      if errorCodeName = JSString ''NotWritablePrimary''
         \<or> errorCodeName = JSString ''NotPrimaryOrSecondary''
        then TopologyChange
      else Unclassified)"

text \<open>The tests themselves, named for the statements below.\<close>

definition operationTimeoutCoded :: "jserror \<Rightarrow> bool" where
  "operationTimeoutCoded error =
     (codeName error = JSString ''MaxTimeMSExpired'' \<or> code error = JSNumber 50)"

definition writeConcernCoded :: "jserror \<Rightarrow> bool" where
  "writeConcernCoded error =
     (codeName error = JSString ''WriteConcernFailed'' \<or> code error = JSNumber 64)"

definition commitTimeoutCoded :: "jserror \<Rightarrow> bool" where
  "commitTimeoutCoded error =
     (codeName error = JSString ''ExceededTimeLimit'' \<or> code error = JSNumber 262)"

definition topologyNamed :: "jserror \<Rightarrow> bool" where
  "topologyNamed error =
     (codeName error = JSString ''NotWritablePrimary''
      \<or> codeName error = JSString ''NotPrimaryOrSecondary''
      \<or> codeName error = JSString ''InterruptedDueToReplStateChange'')"

section \<open>The timeouts read from the environment\<close>

text \<open>
  \<^verbatim>\<open>parseInt(string, 10)\<close>: leading white space is skipped, one sign is read, then
  the longest run of decimal digits; no digit gives \<^verbatim>\<open>NaN\<close>. Strings are lists of
  8-bit characters here, so the white space is the white space below 256 (tab, line feed,
  vertical tab, form feed, carriage return, space and the no-break space); the result is
  the mathematical integer, without the rounding to a double that JavaScript applies
  beyond \<open>2^53\<close>.
\<close>

datatype jsnum = NaN | Num int

definition isWhiteSpace :: "char \<Rightarrow> bool" where
  "isWhiteSpace c = ((of_char c :: nat) \<in> {9, 10, 11, 12, 13, 32, 160})"

definition isDigit :: "char \<Rightarrow> bool" where
  "isDigit c = (48 \<le> (of_char c :: nat) \<and> (of_char c :: nat) \<le> 57)"

definition digitsValue :: "string \<Rightarrow> int" where
  "digitsValue ds = foldl (\<lambda>acc c. 10 * acc + (int (of_char c) - 48)) 0 ds"

definition parseInt10 :: "string \<Rightarrow> jsnum" where
  "parseInt10 string =
     (let S = dropWhile isWhiteSpace string;
          negative = (S \<noteq> [] \<and> hd S = CHR ''-'');
          S' = (if S \<noteq> [] \<and> (hd S = CHR ''+'' \<or> hd S = CHR ''-'') then tl S else S);
          Z = takeWhile isDigit S'
      in if Z = [] then NaN
         else Num ((if negative then - 1 else 1) * digitsValue Z))"

text \<open>
  \<^verbatim>\<open>process.env\<close> maps a name to a string or to \<^verbatim>\<open>undefined\<close>;
  \<^verbatim>\<open>process.env.X || 'dflt'\<close> takes the default for an unset and for an empty
  variable, both being falsy.
\<close>

type_synonym env = "string \<rightharpoonup> string"

definition orDefault :: "string option \<Rightarrow> string \<Rightarrow> string" where
  "orDefault v dflt = (case v of None \<Rightarrow> dflt | Some s \<Rightarrow> if s = [] then dflt else s)"

definition W_TIMEOUT_MS :: "env \<Rightarrow> jsnum" where
  "W_TIMEOUT_MS env = parseInt10 (orDefault (env ''W_TIMEOUT_MS'') ''2000'')"

definition MAX_COMMIT_MS :: "env \<Rightarrow> jsnum" where
  "MAX_COMMIT_MS env = parseInt10 (orDefault (env ''MAX_COMMIT_MS'') ''1500'')"

definition OP_MAXTIME_MS :: "env \<Rightarrow> jsnum" where
  "OP_MAXTIME_MS env = parseInt10 (orDefault (env ''OP_MAXTIME_MS'') ''1000'')"

text \<open>
  The options objects. A property the script does not write is absent (\<open>None\<close>): the
  driver then sends no such bound.
\<close>

record writeConcern =
  w :: string
  wtimeout :: "jsnum option"

record transactionOptions =
  writeConcern :: writeConcern
  readConcernLevel :: string
  maxCommitTimeMS :: "jsnum option"

record operationOptions =
  maxTimeMS :: "jsnum option"

definition transactionOptions_runTransaction :: "env \<Rightarrow> transactionOptions" where
  "transactionOptions_runTransaction env =
     \<lparr> writeConcern = \<lparr> w = ''majority'', wtimeout = Some (W_TIMEOUT_MS env) \<rparr>,
       readConcernLevel = ''majority'',
       maxCommitTimeMS = Some (MAX_COMMIT_MS env) \<rparr>"

definition operationOptions_runTransaction :: "env \<Rightarrow> operationOptions" where
  "operationOptions_runTransaction env = \<lparr> maxTimeMS = Some (OP_MAXTIME_MS env) \<rparr>"

text \<open>
  The three scripts without timeouts (\<^verbatim>\<open>runTransactionNoTimeout\<close>,
  \<^verbatim>\<open>runTransactionHangOnCommit\<close>, \<^verbatim>\<open>runTransactionHangPause\<close>) write the
  same options object and pass only the session to each operation.
\<close>

definition transactionOptions_noTimeout :: transactionOptions where
  "transactionOptions_noTimeout =
     \<lparr> writeConcern = \<lparr> w = ''majority'', wtimeout = None \<rparr>,
       readConcernLevel = ''majority'',
       maxCommitTimeMS = None \<rparr>"

definition operationOptions_noTimeout :: operationOptions where
  "operationOptions_noTimeout = \<lparr> maxTimeMS = None \<rparr>"

section \<open>The driver, as the scripts see it\<close>

text \<open>
  Every call into the driver either returns, throws an error, or never settles (the hang
  the scripts are written to reproduce). A \<open>driver\<close> fixes what each call of one run
  does; \<open>insertOne d i\<close> is the outcome of the insert issued with loop index \<open>i\<close>
  (index \<open>0\<close> for the single insert of a script without a loop), and \<open>inTransaction d\<close>
  is what \<^verbatim>\<open>session.inTransaction()\<close> answers in the catch block.
\<close>

datatype outcome = Returns | Throws jserror | Hangs

record driver =
  connect :: outcome
  createIndex :: outcome
  startSession :: outcome
  startTransaction :: outcome
  insertOne :: "nat \<Rightarrow> outcome"
  updateOne :: outcome
  commitTransaction :: outcome
  inTransaction :: bool
  abortTransaction :: outcome
  endSession :: outcome
  close :: outcome

text \<open>
  What a run does is observed as the sequence of its driver calls, its sleeps and the
  lines of its catch block that report the error; the other console output is left out.
  \<open>InsertOne n opts\<close> is the \<open>n\<close>-th insert (the
  \<^verbatim>\<open>operationNumber\<close> of the document in the scripts with a loop).
\<close>

datatype event =
    Connect string
  | CreateIndex
  | StartSession
  | StartTransaction transactionOptions
  | InsertOne nat operationOptions
  | UpdateOne operationOptions
  | Sleep nat
  | CommitTransaction
  | LogError jsval jsval string
  | LogCategory category
  | AbortTransaction
  | LogAbortFailed string
  | EndSession
  | Close

text \<open>
  The state of a run: the events so far, and whether the variable
  \<^verbatim>\<open>session\<close> has been assigned (it starts as \<^verbatim>\<open>null\<close>).
\<close>

record state =
  trace :: "event list"
  session :: bool

datatype result = Ok | Throw jserror | Hang

type_synonym prog = "state \<Rightarrow> state \<times> result"

definition initial :: state where
  "initial = \<lparr> trace = [], session = False \<rparr>"

definition skip :: prog where
  "skip s = (s, Ok)"

definition emit :: "event \<Rightarrow> prog" where
  "emit ev s = (s\<lparr> trace := trace s @ [ev] \<rparr>, Ok)"

text \<open>\<^verbatim>\<open>await\<close> of a driver call: the call is issued, then its outcome decides.\<close>

definition call :: "event \<Rightarrow> outcome \<Rightarrow> prog" where
  "call ev out s =
     (s\<lparr> trace := trace s @ [ev] \<rparr>,
      case out of Returns \<Rightarrow> Ok | Throws e \<Rightarrow> Throw e | Hangs \<Rightarrow> Hang)"

text \<open>\<^verbatim>\<open>await sleep(ms)\<close>: the timer always fires.\<close>

definition sleep :: "nat \<Rightarrow> prog" where
  "sleep ms = emit (Sleep ms)"

text \<open>\<^verbatim>\<open>session = client.startSession()\<close>: assigned only when the call returns.\<close>

definition assignSession :: "outcome \<Rightarrow> prog" where
  "assignSession out s =
     (case out of
        Returns \<Rightarrow> (s\<lparr> trace := trace s @ [StartSession], session := True \<rparr>, Ok)
      | Throws e \<Rightarrow> (s\<lparr> trace := trace s @ [StartSession] \<rparr>, Throw e)
      | Hangs \<Rightarrow> (s\<lparr> trace := trace s @ [StartSession] \<rparr>, Hang))"

text \<open>Statements in sequence: the next one runs only when this one completed.\<close>

definition seq :: "prog \<Rightarrow> prog \<Rightarrow> prog" where
  "seq p q s = (case p s of (s', Ok) \<Rightarrow> q s' | (s', r) \<Rightarrow> (s', r))"

fun seqs :: "prog list \<Rightarrow> prog" where
  "seqs [] = skip"
| "seqs (p # ps) = seq p (seqs ps)"

text \<open>\<^verbatim>\<open>try { p } catch (e) { h e }\<close>\<close>

definition tryCatch :: "prog \<Rightarrow> (jserror \<Rightarrow> prog) \<Rightarrow> prog" where
  "tryCatch p h s = (case p s of (s', Throw e) \<Rightarrow> h e s' | (s', r) \<Rightarrow> (s', r))"

text \<open>
  \<^verbatim>\<open>try { p } finally { f }\<close>: \<open>f\<close> runs when \<open>p\<close> completed or threw; when
  \<open>f\<close> completes, the completion of \<open>p\<close> stands, otherwise that of \<open>f\<close>. When
  \<open>p\<close> never settles, \<open>f\<close> is never reached.
\<close>

definition tryFinally :: "prog \<Rightarrow> prog \<Rightarrow> prog" where
  "tryFinally p f s =
     (case p s of
        (s', Hang) \<Rightarrow> (s', Hang)
      | (s', r) \<Rightarrow> (case f s' of (s'', Ok) \<Rightarrow> (s'', r) | (s'', r') \<Rightarrow> (s'', r')))"

text \<open>\<^verbatim>\<open>if (session) { p }\<close> and \<^verbatim>\<open>if (c) { p }\<close>\<close>

definition ifSession :: "prog \<Rightarrow> prog" where
  "ifSession p s = (if session s then p s else (s, Ok))"

definition ifThen :: "bool \<Rightarrow> prog \<Rightarrow> prog" where
  "ifThen c p s = (if c then p s else (s, Ok))"

text \<open>
  \<^verbatim>\<open>run().then(() => process.exit(0)).catch(() => process.exit(1))\<close>: the status the
  process exits with, \<open>None\<close> when the run never settles.
\<close>

fun exitCode :: "result \<Rightarrow> nat option" where
  "exitCode Ok = Some 0"
| "exitCode (Throw e) = Some 1"
| "exitCode Hang = None"

section \<open>The catch and finally blocks\<close>

text \<open>
  The four scripts share their catch block up to the chain of tests, and share their
  finally block: the raw fields are printed (\<^verbatim>\<open>errorCodeName || 'N/A'\<close> for the
  name), then the line of the chain, then one abort is tried when the session is in a
  transaction, an error of the abort being printed and dropped.
\<close>

definition orNA :: "jsval \<Rightarrow> jsval" where
  "orNA v = (if truthy v then v else JSString ''N/A'')"

definition catchBlock :: "(jserror \<Rightarrow> category) \<Rightarrow> driver \<Rightarrow> jserror \<Rightarrow> prog" where
  "catchBlock classify d error =
     seqs [
       emit (LogError (code error) (orNA (codeName error)) (message error)),
       emit (LogCategory (classify error)),
       ifSession (ifThen (inTransaction d)
         (tryCatch (call AbortTransaction (abortTransaction d))
            (\<lambda>abortError. emit (LogAbortFailed (message abortError)))))
     ]"

definition finallyBlock :: "driver \<Rightarrow> prog" where
  "finallyBlock d =
     seqs [
       ifSession (call EndSession (endSession d)),
       call Close (close d)
     ]"

section \<open>The four scripts\<close>

text \<open>
  Each script constructs its client from a constant connection string before the try
  block (which does not fail), and then runs
  \<^verbatim>\<open>try { ... } catch (error) { ... } finally { ... }\<close>.
\<close>

definition MONGO_URI_runTransaction :: string where
  "MONGO_URI_runTransaction =
     ''mongodb://mongo1:27017,mongo2:27017,mongo3:27017/?replicaSet=rs0''"

definition MONGO_URI_noTimeout :: string where
  "MONGO_URI_noTimeout =
     ''mongodb://mongo1:27017,mongo2:27017,mongo3:27017/?replicaSet=rs0&socketTimeoutMS=0&serverSelectionTimeoutMS=300000''"

subsection \<open>\<^verbatim>\<open>runTransaction\<close>\<close>

definition runTransaction_try :: "env \<Rightarrow> driver \<Rightarrow> prog" where
  "runTransaction_try env d =
     seqs [
       call (Connect MONGO_URI_runTransaction) (connect d),
       tryCatch (call CreateIndex (createIndex d)) (\<lambda>err. skip),
       assignSession (startSession d),
       call (StartTransaction (transactionOptions_runTransaction env)) (startTransaction d),
       call (InsertOne 1 (operationOptions_runTransaction env)) (insertOne d 0),
       sleep 700,
       call (UpdateOne (operationOptions_runTransaction env)) (updateOne d),
       call CommitTransaction (commitTransaction d)
     ]"

definition runTransaction :: "env \<Rightarrow> driver \<Rightarrow> prog" where
  "runTransaction env d =
     tryFinally
       (tryCatch (runTransaction_try env d) (catchBlock classify_runTransaction d))
       (finallyBlock d)"

subsection \<open>\<^verbatim>\<open>runTransactionNoTimeout\<close>\<close>

definition runTransactionNoTimeout_try :: "driver \<Rightarrow> prog" where
  "runTransactionNoTimeout_try d =
     seqs [
       call (Connect MONGO_URI_noTimeout) (connect d),
       tryCatch (call CreateIndex (createIndex d)) (\<lambda>err. skip),
       assignSession (startSession d),
       call (StartTransaction transactionOptions_noTimeout) (startTransaction d),
       call (InsertOne 1 operationOptions_noTimeout) (insertOne d 0),
       sleep 5000,
       call (UpdateOne operationOptions_noTimeout) (updateOne d),
       call CommitTransaction (commitTransaction d)
     ]"

definition runTransactionNoTimeout :: "driver \<Rightarrow> prog" where
  "runTransactionNoTimeout d =
     tryFinally
       (tryCatch (runTransactionNoTimeout_try d)
          (catchBlock classify_runTransactionNoTimeout d))
       (finallyBlock d)"

subsection \<open>\<^verbatim>\<open>runTransactionHangOnCommit\<close>\<close>

text \<open>
  \<^verbatim>\<open>for (let i = 0; i < 3; i++) await collection.insertOne(..., { session })\<close>:
  the body once for each index in turn, the document carrying
  \<^verbatim>\<open>operationNumber: i + 1\<close>.
\<close>

definition insertLoop :: "driver \<Rightarrow> prog" where
  "insertLoop d =
     seqs (map (\<lambda>i. call (InsertOne (i + 1) operationOptions_noTimeout) (insertOne d i))
             [0 ..< 3])"

text \<open>
  \<^verbatim>\<open>for (let i = n; i > 0; i--) { ...; await sleep(1000) }\<close>: the countdown the
  operator uses to stop, pause or partition members before the commit.
\<close>

definition countdown :: "nat \<Rightarrow> prog" where
  "countdown n = seqs (map (\<lambda>i. sleep 1000) (rev [1 ..< Suc n]))"

definition runTransactionHangOnCommit_try :: "driver \<Rightarrow> prog" where
  "runTransactionHangOnCommit_try d =
     seqs [
       call (Connect MONGO_URI_noTimeout) (connect d),
       assignSession (startSession d),
       call (StartTransaction transactionOptions_noTimeout) (startTransaction d),
       insertLoop d,
       countdown 30,
       sleep 5000,
       call CommitTransaction (commitTransaction d)
     ]"

definition runTransactionHangOnCommit :: "driver \<Rightarrow> prog" where
  "runTransactionHangOnCommit d =
     tryFinally
       (tryCatch (runTransactionHangOnCommit_try d)
          (catchBlock classify_runTransactionHangOnCommit d))
       (finallyBlock d)"

subsection \<open>\<^verbatim>\<open>runTransactionHangPause\<close>\<close>

definition runTransactionHangPause_try :: "driver \<Rightarrow> prog" where
  "runTransactionHangPause_try d =
     seqs [
       call (Connect MONGO_URI_noTimeout) (connect d),
       assignSession (startSession d),
       call (StartTransaction transactionOptions_noTimeout) (startTransaction d),
       insertLoop d,
       countdown 15,
       call CommitTransaction (commitTransaction d)
     ]"

definition runTransactionHangPause :: "driver \<Rightarrow> prog" where
  "runTransactionHangPause d =
     tryFinally
       (tryCatch (runTransactionHangPause_try d)
          (catchBlock classify_runTransactionHangPause d))
       (finallyBlock d)"

section \<open>Observations on a run\<close>

text \<open>
  The four scripts, each with its try block and its chain of tests.
\<close>

definition scripts :: "env \<Rightarrow> driver \<Rightarrow> (prog \<times> prog \<times> (jserror \<Rightarrow> category)) set" where
  "scripts env d =
     {(runTransaction env d, runTransaction_try env d, classify_runTransaction),
      (runTransactionNoTimeout d, runTransactionNoTimeout_try d,
         classify_runTransactionNoTimeout),
      (runTransactionHangOnCommit d, runTransactionHangOnCommit_try d,
         classify_runTransactionHangOnCommit),
      (runTransactionHangPause d, runTransactionHangPause_try d,
         classify_runTransactionHangPause)}"

text \<open>
  The events of a try block, and the events of the catch and finally blocks.
\<close>

fun isBodyEvent :: "event \<Rightarrow> bool" where
  "isBodyEvent (Connect u) = True"
| "isBodyEvent CreateIndex = True"
| "isBodyEvent StartSession = True"
| "isBodyEvent (StartTransaction opts) = True"
| "isBodyEvent (InsertOne n opts) = True"
| "isBodyEvent (UpdateOne opts) = True"
| "isBodyEvent (Sleep ms) = True"
| "isBodyEvent CommitTransaction = True"
| "isBodyEvent ev = False"

fun isCleanupEvent :: "event \<Rightarrow> bool" where
  "isCleanupEvent (LogError c n m) = True"
| "isCleanupEvent (LogCategory c) = True"
| "isCleanupEvent AbortTransaction = True"
| "isCleanupEvent (LogAbortFailed m) = True"
| "isCleanupEvent EndSession = True"
| "isCleanupEvent Close = True"
| "isCleanupEvent ev = False"



fun isStartTransaction :: "event \<Rightarrow> bool" where
  "isStartTransaction (StartTransaction opts) = True"
| "isStartTransaction ev = False"

text \<open>
  An event that carries a connection string or options carries those of the scripts
  without timeouts.
\<close>

fun usesNoTimeout :: "event \<Rightarrow> bool" where
  "usesNoTimeout (Connect u) = (u = MONGO_URI_noTimeout)"
| "usesNoTimeout (StartTransaction opts) = (opts = transactionOptions_noTimeout)"
| "usesNoTimeout (InsertOne n opts) = (opts = operationOptions_noTimeout)"
| "usesNoTimeout (UpdateOne opts) = (opts = operationOptions_noTimeout)"
| "usesNoTimeout ev = True"

text \<open>A program that only appends events of one kind to the trace.\<close>

definition emitsOnly :: "(event \<Rightarrow> bool) \<Rightarrow> prog \<Rightarrow> bool" where
  "emitsOnly P p = (\<forall>s. \<exists>tr. trace (fst (p s)) = trace s @ tr \<and> list_all P tr)"

text \<open>How a block ends whose last call had the given outcome.\<close>

definition fromOutcome :: "outcome \<Rightarrow> result" where
  "fromOutcome out = (case out of Returns \<Rightarrow> Ok | Throws e \<Rightarrow> Throw e | Hangs \<Rightarrow> Hang)"

definition completed :: "event list \<Rightarrow> bool \<Rightarrow> outcome \<Rightarrow> state \<times> result" where
  "completed tr sess out = (\<lparr> trace = tr, session = sess \<rparr>, fromOutcome out)"

text \<open>
  The driver reads its connection options from the query part of the connection string:
  what follows \<^verbatim>\<open>?\<close>, split at \<^verbatim>\<open>&\<close>, each part a \<^verbatim>\<open>key=value\<close>.
\<close>

fun splitOn :: "char \<Rightarrow> string \<Rightarrow> string list" where
  "splitOn c [] = [[]]"
| "splitOn c (x # xs) =
     (if x = c then [] # splitOn c xs
      else (case splitOn c xs of [] \<Rightarrow> [[x]] | y # ys \<Rightarrow> (x # y) # ys))"

definition uriOption :: "string \<Rightarrow> string \<Rightarrow> string option" where
  "uriOption uri key =
     map_of
       (map (\<lambda>kv. (takeWhile (\<lambda>c. c \<noteq> CHR ''='') kv,
                   drop 1 (dropWhile (\<lambda>c. c \<noteq> CHR ''='') kv)))
          (splitOn (CHR ''&'') (drop 1 (dropWhile (\<lambda>c. c \<noteq> CHR ''?'') uri))))
       key"

section \<open>Concrete drivers, errors and environments\<close>

definition allReturn :: driver where
  "allReturn =
     \<lparr> connect = Returns, createIndex = Returns, startSession = Returns,
       startTransaction = Returns, insertOne = (\<lambda>i. Returns), updateOne = Returns,
       commitTransaction = Returns, inTransaction = False, abortTransaction = Returns,
       endSession = Returns, close = Returns \<rparr>"

definition writeConcernFailed :: jserror where
  "writeConcernFailed =
     \<lparr> code = JSNumber 64, codeName = JSString ''WriteConcernFailed'',
       message = ''waiting for replication timed out'', errorLabels = Some [] \<rparr>"

definition noPrimary :: jserror where
  "noPrimary =
     \<lparr> code = JSUndefined, codeName = JSUndefined,
       message = ''Server selection timed out'', errorLabels = Some [] \<rparr>"

text \<open>Majority lost before the update; the abort then finds no primary.\<close>

definition loseMajority :: driver where
  "loseMajority =
     allReturn\<lparr> updateOne := Throws writeConcernFailed, inTransaction := True,
                abortTransaction := Throws noPrimary \<rparr>"

text \<open>The commit never settles; everything before it returns.\<close>

definition commitHangs :: driver where
  "commitHangs = allReturn\<lparr> commitTransaction := Hangs \<rparr>"

text \<open>Majority lost before the update, and ending the session fails afterwards.\<close>

definition endSessionFails :: driver where
  "endSessionFails =
     allReturn\<lparr> updateOne := Throws writeConcernFailed, inTransaction := True,
                endSession := Throws noPrimary \<rparr>"

text \<open>Majority lost before the update, and the abort never settles.\<close>

definition abortHangs :: driver where
  "abortHangs =
     allReturn\<lparr> updateOne := Throws writeConcernFailed, inTransaction := True,
                abortTransaction := Hangs \<rparr>"

text \<open>
  Errors for the chains: a labelled error that has the name of a commit timeout and the
  code of an operation timeout; a labelled commit timeout as the server reports it; an
  error no test matches; and two errors of a change of primary.
\<close>

definition commitNamedOperationCoded :: jserror where
  "commitNamedOperationCoded =
     \<lparr> code = JSNumber 50, codeName = JSString ''ExceededTimeLimit'',
       message = ''operation exceeded time limit'',
       errorLabels = Some [''TransientTransactionError''] \<rparr>"

definition labelledCommitTimeout :: jserror where
  "labelledCommitTimeout =
     \<lparr> code = JSNumber 262, codeName = JSString ''ExceededTimeLimit'',
       message = ''operation exceeded time limit'',
       errorLabels = Some [''TransientTransactionError''] \<rparr>"

definition duplicateKey :: jserror where
  "duplicateKey =
     \<lparr> code = JSNumber 11000, codeName = JSString ''DuplicateKey'',
       message = ''E11000 duplicate key error'', errorLabels = Some [] \<rparr>"

definition notWritablePrimary :: jserror where
  "notWritablePrimary =
     \<lparr> code = JSNumber 10107, codeName = JSString ''NotWritablePrimary'',
       message = ''not primary'', errorLabels = Some [] \<rparr>"

definition interruptedByStepdown :: jserror where
  "interruptedByStepdown =
     \<lparr> code = JSNumber 11602, codeName = JSString ''InterruptedDueToReplStateChange'',
       message = ''operation was interrupted'', errorLabels = Some [] \<rparr>"

text \<open>A state in which the session has been started.\<close>

definition inTransactionState :: state where
  "inTransactionState = \<lparr> trace = [], session = True \<rparr>"

text \<open>
  Environments: the three timeouts negative, the three timeouts set to the empty string,
  and the three timeouts set to a word that is no number.
\<close>

definition negativeEnv :: env where
  "negativeEnv =
     Map.empty(''W_TIMEOUT_MS'' \<mapsto> ''-5'', ''MAX_COMMIT_MS'' \<mapsto> ''-5'',
               ''OP_MAXTIME_MS'' \<mapsto> ''-5'')"

definition emptyValueEnv :: env where
  "emptyValueEnv =
     Map.empty(''W_TIMEOUT_MS'' \<mapsto> '''', ''MAX_COMMIT_MS'' \<mapsto> '''',
               ''OP_MAXTIME_MS'' \<mapsto> '''')"

definition unparseableEnv :: env where
  "unparseableEnv =
     Map.empty(''W_TIMEOUT_MS'' \<mapsto> ''fast'', ''MAX_COMMIT_MS'' \<mapsto> ''fast'',
               ''OP_MAXTIME_MS'' \<mapsto> ''fast'')"

section \<open>The blocks, evaluated\<close>

lemma catchBlock_result:
  "catchBlock cl d e s =
     (if session s \<and> inTransaction d then
        (case abortTransaction d of
           Returns \<Rightarrow>
             (s\<lparr> trace := trace s @ [LogError (code e) (orNA (codeName e)) (message e),
                                      LogCategory (cl e), AbortTransaction] \<rparr>, Ok)
         | Throws ae \<Rightarrow>
             (s\<lparr> trace := trace s @ [LogError (code e) (orNA (codeName e)) (message e),
                                      LogCategory (cl e), AbortTransaction,
                                      LogAbortFailed (message ae)] \<rparr>, Ok)
         | Hangs \<Rightarrow>
             (s\<lparr> trace := trace s @ [LogError (code e) (orNA (codeName e)) (message e),
                                      LogCategory (cl e), AbortTransaction] \<rparr>, Hang))
      else (s\<lparr> trace := trace s @ [LogError (code e) (orNA (codeName e)) (message e),
                                     LogCategory (cl e)] \<rparr>, Ok))"
  by (simp add: catchBlock_def seq_def emit_def ifSession_def ifThen_def tryCatch_def
        call_def skip_def split: outcome.splits)

lemma finallyBlock_result:
  "finallyBlock d s =
     (if session s then
        (case endSession d of
           Returns \<Rightarrow>
             (s\<lparr> trace := trace s @ [EndSession, Close] \<rparr>,
              case close d of Returns \<Rightarrow> Ok | Throws e \<Rightarrow> Throw e | Hangs \<Rightarrow> Hang)
         | Throws e \<Rightarrow> (s\<lparr> trace := trace s @ [EndSession] \<rparr>, Throw e)
         | Hangs \<Rightarrow> (s\<lparr> trace := trace s @ [EndSession] \<rparr>, Hang))
      else (s\<lparr> trace := trace s @ [Close] \<rparr>,
            case close d of Returns \<Rightarrow> Ok | Throws e \<Rightarrow> Throw e | Hangs \<Rightarrow> Hang))"
  by (simp add: finallyBlock_def seq_def ifSession_def call_def skip_def split: outcome.splits)

lemma orDefault_set: "s \<noteq> [] \<Longrightarrow> orDefault (Some s) dflt = s"
  by (simp add: orDefault_def)

lemma parseInt10_Nil: "parseInt10 [] = NaN"
  by (simp add: parseInt10_def)

lemma emitsOnly_skip: "emitsOnly P skip"
  by (simp add: emitsOnly_def skip_def)

lemma emitsOnly_emit: "P ev \<Longrightarrow> emitsOnly P (emit ev)"
  by (simp add: emitsOnly_def emit_def)

lemma emitsOnly_sleep: "P (Sleep ms) \<Longrightarrow> emitsOnly P (sleep ms)"
  by (simp add: sleep_def emitsOnly_emit)

lemma emitsOnly_call: "P ev \<Longrightarrow> emitsOnly P (call ev out)"
  by (simp add: emitsOnly_def call_def)

lemma emitsOnly_assignSession: "P StartSession \<Longrightarrow> emitsOnly P (assignSession out)"
  by (simp add: emitsOnly_def assignSession_def split: outcome.splits)

lemma emitsOnly_seq:
  assumes "emitsOnly P p" and "emitsOnly P q"
  shows "emitsOnly P (seq p q)"
  unfolding emitsOnly_def
proof
  fix s
  obtain s' r where ps: "p s = (s', r)" by (cases "p s")
  from assms(1) ps obtain tr1 where t1: "trace s' = trace s @ tr1" "list_all P tr1"
    unfolding emitsOnly_def by (metis fst_conv)
  show "\<exists>tr. trace (fst (seq p q s)) = trace s @ tr \<and> list_all P tr"
  proof (cases r)
    case Ok
    from assms(2) obtain tr2 where t2: "trace (fst (q s')) = trace s' @ tr2" "list_all P tr2"
      unfolding emitsOnly_def by blast
    have "trace (fst (seq p q s)) = trace s @ (tr1 @ tr2)"
      using ps Ok t1 t2 by (simp add: seq_def)
    moreover have "list_all P (tr1 @ tr2)" using t1 t2 by simp
    ultimately show ?thesis by blast
  next
    case (Throw e)
    then show ?thesis using ps t1 by (auto simp: seq_def)
  next
    case Hang
    then show ?thesis using ps t1 by (auto simp: seq_def)
  qed
qed

lemma emitsOnly_seqs: "list_all (emitsOnly P) ps \<Longrightarrow> emitsOnly P (seqs ps)"
  by (induction ps) (simp_all add: emitsOnly_skip emitsOnly_seq)

lemma emitsOnly_tryCatch:
  assumes "emitsOnly P p" and "\<And>e. emitsOnly P (h e)"
  shows "emitsOnly P (tryCatch p h)"
  unfolding emitsOnly_def
proof
  fix s
  obtain s' r where ps: "p s = (s', r)" by (cases "p s")
  from assms(1) ps obtain tr1 where t1: "trace s' = trace s @ tr1" "list_all P tr1"
    unfolding emitsOnly_def by (metis fst_conv)
  show "\<exists>tr. trace (fst (tryCatch p h s)) = trace s @ tr \<and> list_all P tr"
  proof (cases r)
    case Ok
    then show ?thesis using ps t1 by (auto simp: tryCatch_def)
  next
    case (Throw e)
    from assms(2) obtain tr2 where t2: "trace (fst (h e s')) = trace s' @ tr2" "list_all P tr2"
      unfolding emitsOnly_def by blast
    have "trace (fst (tryCatch p h s)) = trace s @ (tr1 @ tr2)"
      using ps Throw t1 t2 by (simp add: tryCatch_def)
    moreover have "list_all P (tr1 @ tr2)" using t1 t2 by simp
    ultimately show ?thesis by blast
  next
    case Hang
    then show ?thesis using ps t1 by (auto simp: tryCatch_def)
  qed
qed

lemma map_sleep_result:
  "seqs (map (\<lambda>i. sleep ms) xs) s = (s\<lparr> trace := trace s @ replicate (length xs) (Sleep ms) \<rparr>, Ok)"
proof (induction xs arbitrary: s)
  case Nil
  then show ?case by (simp add: skip_def)
next
  case (Cons x xs)
  then show ?case
    by (simp add: seq_def sleep_def emit_def replicate_append_same)
qed

lemma countdown_result:
  "countdown n s = (s\<lparr> trace := trace s @ replicate n (Sleep 1000) \<rparr>, Ok)"
  by (simp add: countdown_def map_sleep_result)

lemmas emitsOnly_intros =
  emitsOnly_skip emitsOnly_emit emitsOnly_sleep emitsOnly_call emitsOnly_assignSession
  emitsOnly_seqs emitsOnly_tryCatch

lemma emitsOnly_insertLoop: "emitsOnly isBodyEvent (insertLoop d)"
  unfolding insertLoop_def
  by (rule emitsOnly_seqs) (simp add: list_all_iff emitsOnly_call)

lemma emitsOnly_countdown: "emitsOnly isBodyEvent (countdown n)"
  unfolding countdown_def
  by (rule emitsOnly_seqs) (simp add: list_all_iff emitsOnly_sleep)

lemma body_runTransaction: "emitsOnly isBodyEvent (runTransaction_try env d)"
  unfolding runTransaction_try_def
  by (rule emitsOnly_seqs) (simp add: emitsOnly_intros)

lemma body_runTransactionNoTimeout: "emitsOnly isBodyEvent (runTransactionNoTimeout_try d)"
  unfolding runTransactionNoTimeout_try_def
  by (rule emitsOnly_seqs) (simp add: emitsOnly_intros)

lemma body_runTransactionHangOnCommit: "emitsOnly isBodyEvent (runTransactionHangOnCommit_try d)"
  unfolding runTransactionHangOnCommit_try_def
  by (rule emitsOnly_seqs) (simp add: emitsOnly_intros emitsOnly_insertLoop emitsOnly_countdown)

lemma body_runTransactionHangPause: "emitsOnly isBodyEvent (runTransactionHangPause_try d)"
  unfolding runTransactionHangPause_try_def
  by (rule emitsOnly_seqs) (simp add: emitsOnly_intros emitsOnly_insertLoop emitsOnly_countdown)

lemma emitsOnly_initial:
  assumes "emitsOnly P p" and "p initial = (s1, r)"
  shows "list_all P (trace s1)"
proof -
  from assms(1) obtain tr where "trace (fst (p initial)) = trace initial @ tr" "list_all P tr"
    unfolding emitsOnly_def by blast
  then show ?thesis using assms(2) by (simp add: initial_def)
qed

lemma script_on_failure:
  assumes "body s0 = (s1, Throw e)"
  shows "tryFinally (tryCatch body (catchBlock cl d)) (finallyBlock d) s0 =
           (case catchBlock cl d e s1 of
              (s2, Hang) \<Rightarrow> (s2, Hang)
            | (s2, r) \<Rightarrow>
                (case finallyBlock d s2 of (s3, Ok) \<Rightarrow> (s3, r) | (s3, r') \<Rightarrow> (s3, r')))"
  using assms by (simp add: tryFinally_def tryCatch_def split: prod.splits result.splits)

lemma script_on_success:
  assumes "body s0 = (s1, Ok)"
  shows "tryFinally (tryCatch body (catchBlock cl d)) (finallyBlock d) s0 = finallyBlock d s1"
  using assms by (simp add: tryFinally_def tryCatch_def split: prod.splits result.splits)

lemma script_on_hang:
  assumes "body s0 = (s1, Hang)"
  shows "tryFinally (tryCatch body (catchBlock cl d)) (finallyBlock d) s0 = (s1, Hang)"
  using assms by (simp add: tryFinally_def tryCatch_def)

lemma body_no_cleanup:
  assumes "list_all isBodyEvent tr"
  shows "count_list tr AbortTransaction = 0" and "LogCategory c \<notin> set tr"
    and "LogError a b m \<notin> set tr" and "LogAbortFailed m \<notin> set tr"
    and "EndSession \<notin> set tr" and "Close \<notin> set tr"
  using assms by (induction tr) auto

lemma failure_in_transaction:
  fixes cl :: "jserror \<Rightarrow> category"
  assumes "emitsOnly isBodyEvent body"
    and "body initial = (s1, Throw e)" and "session s1" and "inTransaction d"
  defines "final \<equiv> tryFinally (tryCatch body (catchBlock cl d)) (finallyBlock d) initial"
  shows "count_list (trace (fst final)) AbortTransaction = 1"
    and "LogCategory c \<in> set (trace (fst final)) \<longleftrightarrow> c = cl e"
    and "LogError (code e) (orNA (codeName e)) (message e) \<in> set (trace (fst final))"
    and "abortTransaction d = Throws ae \<Longrightarrow> LogAbortFailed (message ae) \<in> set (trace (fst final))"
    and "abortTransaction d \<noteq> Hangs \<Longrightarrow> snd final = snd (finallyBlock d s1)"
proof -
  have b: "list_all isBodyEvent (trace s1)"
    using emitsOnly_initial [OF assms(1) assms(2)] .
  note nc = body_no_cleanup [OF b]
  have f: "final = (case catchBlock cl d e s1 of
              (s2, Hang) \<Rightarrow> (s2, Hang)
            | (s2, r) \<Rightarrow>
                (case finallyBlock d s2 of (s3, Ok) \<Rightarrow> (s3, r) | (s3, r') \<Rightarrow> (s3, r')))"
    unfolding final_def using assms(2) by (rule script_on_failure)
  show "count_list (trace (fst final)) AbortTransaction = 1"
    using assms(3,4) nc(1)
    by (simp add: f catchBlock_result finallyBlock_result split: outcome.splits)
  show "LogCategory c \<in> set (trace (fst final)) \<longleftrightarrow> c = cl e"
    using assms(3,4) nc(2)
    by (auto simp add: f catchBlock_result finallyBlock_result split: outcome.splits)
  show "LogError (code e) (orNA (codeName e)) (message e) \<in> set (trace (fst final))"
    using assms(3,4)
    by (simp add: f catchBlock_result finallyBlock_result split: outcome.splits)
  show "abortTransaction d = Throws ae \<Longrightarrow> LogAbortFailed (message ae) \<in> set (trace (fst final))"
    using assms(3,4)
    by (simp add: f catchBlock_result finallyBlock_result split: outcome.splits)
  show "abortTransaction d \<noteq> Hangs \<Longrightarrow> snd final = snd (finallyBlock d s1)"
    using assms(3,4)
    by (simp add: f catchBlock_result finallyBlock_result split: outcome.splits)
qed

lemma seq_call:
  "seq (call ev out) q s =
     (case out of
        Returns \<Rightarrow> q (s\<lparr> trace := trace s @ [ev] \<rparr>)
      | Throws e \<Rightarrow> (s\<lparr> trace := trace s @ [ev] \<rparr>, Throw e)
      | Hangs \<Rightarrow> (s\<lparr> trace := trace s @ [ev] \<rparr>, Hang))"
  by (simp add: seq_def call_def split: outcome.splits)

lemma seq_assignSession:
  "seq (assignSession out) q s =
     (case out of
        Returns \<Rightarrow> q (s\<lparr> trace := trace s @ [StartSession], session := True \<rparr>)
      | Throws e \<Rightarrow> (s\<lparr> trace := trace s @ [StartSession] \<rparr>, Throw e)
      | Hangs \<Rightarrow> (s\<lparr> trace := trace s @ [StartSession] \<rparr>, Hang))"
  by (simp add: seq_def assignSession_def split: outcome.splits)

lemma seq_sleep: "seq (sleep ms) q s = q (s\<lparr> trace := trace s @ [Sleep ms] \<rparr>)"
  by (simp add: seq_def sleep_def emit_def)

lemma seq_countdown:
  "seq (countdown n) q s = q (s\<lparr> trace := trace s @ replicate n (Sleep 1000) \<rparr>)"
  by (simp add: seq_def countdown_result)

lemma seq_createIndex:
  "seq (tryCatch (call CreateIndex out) (\<lambda>err. skip)) q s =
     (case out of
        Hangs \<Rightarrow> (s\<lparr> trace := trace s @ [CreateIndex] \<rparr>, Hang)
      | _ \<Rightarrow> q (s\<lparr> trace := trace s @ [CreateIndex] \<rparr>))"
  by (simp add: seq_def tryCatch_def call_def skip_def split: outcome.splits)

lemma insertLoop_unfold:
  "insertLoop d =
     seq (call (InsertOne 1 operationOptions_noTimeout) (insertOne d 0))
       (seq (call (InsertOne 2 operationOptions_noTimeout) (insertOne d 1))
          (seq (call (InsertOne 3 operationOptions_noTimeout) (insertOne d 2)) skip))"
  by (simp add: insertLoop_def upt_rec numeral_eq_Suc)

lemma seq_assoc: "seq (seq p q) r = seq p (seq q r)"
  by (rule ext) (simp add: seq_def split: prod.splits result.splits)

lemma seq_skip: "seq skip q = q"
  by (rule ext) (simp add: seq_def skip_def)

lemma runTransaction_try_result:
  "runTransaction_try env d initial =
     (let u = Connect MONGO_URI_runTransaction;
          t = StartTransaction (transactionOptions_runTransaction env);
          i = InsertOne 1 (operationOptions_runTransaction env);
          p = UpdateOne (operationOptions_runTransaction env)
      in
      if connect d \<noteq> Returns then completed [u] False (connect d)
      else if createIndex d = Hangs then completed [u, CreateIndex] False Hangs
      else if startSession d \<noteq> Returns then
        completed [u, CreateIndex, StartSession] False (startSession d)
      else if startTransaction d \<noteq> Returns then
        completed [u, CreateIndex, StartSession, t] True (startTransaction d)
      else if insertOne d 0 \<noteq> Returns then
        completed [u, CreateIndex, StartSession, t, i] True (insertOne d 0)
      else if updateOne d \<noteq> Returns then
        completed [u, CreateIndex, StartSession, t, i, Sleep 700, p] True (updateOne d)
      else
        completed [u, CreateIndex, StartSession, t, i, Sleep 700, p, CommitTransaction] True
          (commitTransaction d))"
  by (simp add: runTransaction_try_def seq_call seq_assignSession seq_sleep seq_createIndex
        call_def skip_def completed_def fromOutcome_def initial_def Let_def
        split: outcome.splits)

lemma runTransactionHangOnCommit_try_result:
  "runTransactionHangOnCommit_try d initial =
     (let u = Connect MONGO_URI_noTimeout;
          t = StartTransaction transactionOptions_noTimeout;
          i1 = InsertOne 1 operationOptions_noTimeout;
          i2 = InsertOne 2 operationOptions_noTimeout;
          i3 = InsertOne 3 operationOptions_noTimeout
      in
      if connect d \<noteq> Returns then completed [u] False (connect d)
      else if startSession d \<noteq> Returns then completed [u, StartSession] False (startSession d)
      else if startTransaction d \<noteq> Returns then
        completed [u, StartSession, t] True (startTransaction d)
      else if insertOne d 0 \<noteq> Returns then
        completed [u, StartSession, t, i1] True (insertOne d 0)
      else if insertOne d 1 \<noteq> Returns then
        completed [u, StartSession, t, i1, i2] True (insertOne d 1)
      else if insertOne d 2 \<noteq> Returns then
        completed [u, StartSession, t, i1, i2, i3] True (insertOne d 2)
      else
        completed ([u, StartSession, t, i1, i2, i3] @ replicate 30 (Sleep 1000)
                   @ [Sleep 5000, CommitTransaction]) True (commitTransaction d))"
  by (simp add: runTransactionHangOnCommit_try_def insertLoop_unfold seq_assoc seq_skip
        seq_call seq_assignSession seq_sleep seq_countdown
        call_def skip_def completed_def fromOutcome_def initial_def Let_def
        split: outcome.splits)

lemma scripts_cases:
  assumes "(run, body, cl) \<in> scripts env d"
  shows "run = tryFinally (tryCatch body (catchBlock cl d)) (finallyBlock d)
         \<and> emitsOnly isBodyEvent body"
  using assms
  by (auto simp: scripts_def runTransaction_def runTransactionNoTimeout_def
        runTransactionHangOnCommit_def runTransactionHangPause_def
        body_runTransaction body_runTransactionNoTimeout body_runTransactionHangOnCommit
        body_runTransactionHangPause)

subsection \<open>The try blocks of the other scripts\<close>

lemma runTransactionNoTimeout_try_result:
  "runTransactionNoTimeout_try d initial =
     (let u = Connect MONGO_URI_noTimeout;
          t = StartTransaction transactionOptions_noTimeout;
          i = InsertOne 1 operationOptions_noTimeout;
          p = UpdateOne operationOptions_noTimeout
      in
      if connect d \<noteq> Returns then completed [u] False (connect d)
      else if createIndex d = Hangs then completed [u, CreateIndex] False Hangs
      else if startSession d \<noteq> Returns then
        completed [u, CreateIndex, StartSession] False (startSession d)
      else if startTransaction d \<noteq> Returns then
        completed [u, CreateIndex, StartSession, t] True (startTransaction d)
      else if insertOne d 0 \<noteq> Returns then
        completed [u, CreateIndex, StartSession, t, i] True (insertOne d 0)
      else if updateOne d \<noteq> Returns then
        completed [u, CreateIndex, StartSession, t, i, Sleep 5000, p] True (updateOne d)
      else
        completed [u, CreateIndex, StartSession, t, i, Sleep 5000, p, CommitTransaction] True
          (commitTransaction d))"
  by (simp add: runTransactionNoTimeout_try_def seq_call seq_assignSession seq_sleep
        seq_createIndex call_def skip_def completed_def fromOutcome_def initial_def Let_def
        split: outcome.splits)

lemma runTransactionHangPause_try_result:
  "runTransactionHangPause_try d initial =
     (let u = Connect MONGO_URI_noTimeout;
          t = StartTransaction transactionOptions_noTimeout;
          i1 = InsertOne 1 operationOptions_noTimeout;
          i2 = InsertOne 2 operationOptions_noTimeout;
          i3 = InsertOne 3 operationOptions_noTimeout
      in
      if connect d \<noteq> Returns then completed [u] False (connect d)
      else if startSession d \<noteq> Returns then completed [u, StartSession] False (startSession d)
      else if startTransaction d \<noteq> Returns then
        completed [u, StartSession, t] True (startTransaction d)
      else if insertOne d 0 \<noteq> Returns then
        completed [u, StartSession, t, i1] True (insertOne d 0)
      else if insertOne d 1 \<noteq> Returns then
        completed [u, StartSession, t, i1, i2] True (insertOne d 1)
      else if insertOne d 2 \<noteq> Returns then
        completed [u, StartSession, t, i1, i2, i3] True (insertOne d 2)
      else
        completed ([u, StartSession, t, i1, i2, i3] @ replicate 15 (Sleep 1000)
                   @ [CommitTransaction]) True (commitTransaction d))"
  by (simp add: runTransactionHangPause_try_def insertLoop_unfold seq_assoc seq_skip
        seq_call seq_assignSession seq_sleep seq_countdown
        call_def skip_def completed_def fromOutcome_def initial_def Let_def
        split: outcome.splits)

subsection \<open>A run is its try block followed by events of the catch and finally blocks\<close>

lemma script_trace:
  "\<exists>rest. trace (fst (tryFinally (tryCatch body (catchBlock cl d)) (finallyBlock d) s0))
            = trace (fst (body s0)) @ rest
          \<and> list_all isCleanupEvent rest"
proof -
  obtain s1 r where b: "body s0 = (s1, r)" by (cases "body s0")
  show ?thesis
  proof (cases r)
    case Ok
    then show ?thesis
      using b script_on_success [where body = body, of s0 s1 cl d]
      by (simp add: finallyBlock_result split: outcome.splits)
  next
    case (Throw e)
    then show ?thesis
      using b script_on_failure [where body = body, of s0 s1 e cl d]
      by (simp add: catchBlock_result finallyBlock_result split: outcome.splits)
  next
    case Hang
    then show ?thesis
      using b script_on_hang [where body = body, of s0 s1 cl d] by simp
  qed
qed


lemma runTransaction_extends_try:
  "\<exists>rest. trace (fst (runTransaction env d initial))
            = trace (fst (runTransaction_try env d initial)) @ rest"
  unfolding runTransaction_def
  using script_trace [of "runTransaction_try env d" classify_runTransaction d initial]
  by blast

lemma runTransaction_starts_with_connect:
  "\<exists>rest. trace (fst (runTransaction env d initial)) = Connect MONGO_URI_runTransaction # rest"
  using runTransaction_extends_try [of env d]
  by (auto simp: runTransaction_try_result completed_def Let_def)

lemma runTransaction_starts_transaction:
  assumes "connect d = Returns" and "createIndex d \<noteq> Hangs" and "startSession d = Returns"
  shows "StartTransaction (transactionOptions_runTransaction env)
           \<in> set (trace (fst (runTransaction env d initial)))"
  using runTransaction_extends_try [of env d] assms
  by (auto simp: runTransaction_try_result completed_def Let_def)

lemma runTransaction_inserts:
  assumes "connect d = Returns" and "createIndex d \<noteq> Hangs" and "startSession d = Returns"
    and "startTransaction d = Returns"
  shows "InsertOne 1 (operationOptions_runTransaction env)
           \<in> set (trace (fst (runTransaction env d initial)))"
  using runTransaction_extends_try [of env d] assms
  by (auto simp: runTransaction_try_result completed_def Let_def)

lemma allReturn_runTransaction:
  "runTransaction env allReturn initial =
     (\<lparr> trace = [Connect MONGO_URI_runTransaction, CreateIndex, StartSession,
                  StartTransaction (transactionOptions_runTransaction env),
                  InsertOne 1 (operationOptions_runTransaction env), Sleep 700,
                  UpdateOne (operationOptions_runTransaction env), CommitTransaction,
                  EndSession, Close],
         session = True \<rparr>, Ok)"
proof -
  have b: "runTransaction_try env allReturn initial =
     (\<lparr> trace = [Connect MONGO_URI_runTransaction, CreateIndex, StartSession,
                  StartTransaction (transactionOptions_runTransaction env),
                  InsertOne 1 (operationOptions_runTransaction env), Sleep 700,
                  UpdateOne (operationOptions_runTransaction env), CommitTransaction],
         session = True \<rparr>, Ok)"
    by (simp add: runTransaction_try_result allReturn_def completed_def fromOutcome_def)
  show ?thesis
    unfolding runTransaction_def
      script_on_success [where body = "runTransaction_try env allReturn", OF b]
    by (simp add: finallyBlock_result allReturn_def)
qed

lemma commitHangs_runTransactionHangOnCommit:
  "runTransactionHangOnCommit commitHangs initial =
     (\<lparr> trace = [Connect MONGO_URI_noTimeout, StartSession,
                  StartTransaction transactionOptions_noTimeout,
                  InsertOne 1 operationOptions_noTimeout,
                  InsertOne 2 operationOptions_noTimeout,
                  InsertOne 3 operationOptions_noTimeout]
                 @ replicate 30 (Sleep 1000) @ [Sleep 5000, CommitTransaction],
         session = True \<rparr>, Hang)"
proof -
  have b: "runTransactionHangOnCommit_try commitHangs initial =
     (\<lparr> trace = [Connect MONGO_URI_noTimeout, StartSession,
                  StartTransaction transactionOptions_noTimeout,
                  InsertOne 1 operationOptions_noTimeout,
                  InsertOne 2 operationOptions_noTimeout,
                  InsertOne 3 operationOptions_noTimeout]
                 @ replicate 30 (Sleep 1000) @ [Sleep 5000, CommitTransaction],
         session = True \<rparr>, Hang)"
    by (simp add: runTransactionHangOnCommit_try_result commitHangs_def allReturn_def
          completed_def fromOutcome_def)
  show ?thesis
    unfolding runTransactionHangOnCommit_def
      script_on_hang [where body = "runTransactionHangOnCommit_try commitHangs", OF b]
    by simp
qed

subsection \<open>The chains, by their tests\<close>

lemmas chain_defs =
  classify_runTransaction_def classify_runTransactionNoTimeout_def
  classify_runTransactionHangOnCommit_def classify_runTransactionHangPause_def
  operationTimeoutCoded_def writeConcernCoded_def commitTimeoutCoded_def topologyNamed_def
  Let_def

lemma chain_runTransaction:
  "classify_runTransaction f =
     (if operationTimeoutCoded f then OperationTimeout
      else if writeConcernCoded f then WriteConcernTimeout
      else if commitTimeoutCoded f then CommitTimeout
      else if hasTransientLabel f then Retryable
      else Unclassified)"
  by (simp add: chain_defs)

lemma chain_runTransactionNoTimeout:
  "classify_runTransactionNoTimeout f =
     (if operationTimeoutCoded f then OperationTimeout
      else if writeConcernCoded f then WriteConcernTimeout
      else if commitTimeoutCoded f then CommitTimeout
      else if hasTransientLabel f then Retryable
      else Unclassified)"
  by (simp add: chain_defs)

lemma chain_runTransactionHangOnCommit:
  "classify_runTransactionHangOnCommit f =
     (if operationTimeoutCoded f then OperationTimeout
      else if writeConcernCoded f then WriteConcernTimeout
      else if commitTimeoutCoded f then CommitTimeout
      else if hasTransientLabel f then Retryable
      else if codeName f = JSString ''NotPrimaryOrSecondary''
              \<or> codeName f = JSString ''InterruptedDueToReplStateChange''
        then TopologyChange
      else Unclassified)"
  by (simp add: chain_defs)

lemma chain_runTransactionHangPause:
  "classify_runTransactionHangPause f =
     (if codeName f = JSString ''NotWritablePrimary''
         \<or> codeName f = JSString ''NotPrimaryOrSecondary''
        then TopologyChange
      else Unclassified)"
  by (simp add: chain_defs)

lemmas chain_forms =
  chain_runTransaction chain_runTransactionNoTimeout chain_runTransactionHangOnCommit
  chain_runTransactionHangPause

lemma catchBlock_abort_follows:
  assumes "session s" and "inTransaction d"
  shows "\<exists>rest. trace (fst (catchBlock cl d f s)) =
           trace s @ [LogError (code f) (orNA (codeName f)) (message f),
                      LogCategory (cl f), AbortTransaction] @ rest"
  using assms by (simp add: catchBlock_result split: outcome.splits)

lemma catchBlock_never_throws: "snd (catchBlock cl d f s) \<noteq> Throw x"
  by (simp add: catchBlock_result split: outcome.splits)

subsection \<open>Reading the environment\<close>

lemmas parse_defs = parseInt10_def isWhiteSpace_def isDigit_def digitsValue_def

lemma parseInt10_defaults:
  "parseInt10 ''2000'' = Num 2000" "parseInt10 ''1500'' = Num 1500"
  "parseInt10 ''1000'' = Num 1000"
  by (simp_all add: parse_defs)

lemma variable_passes_through:
  assumes "env name = Some s" and "s \<noteq> []"
  shows "parseInt10 (orDefault (env name) dflt) = parseInt10 s"
  using assms by (simp add: orDefault_def)

subsection \<open>How a run exits\<close>

lemma exit_one_only_from_finally:
  assumes "run = tryFinally (tryCatch body (catchBlock cl d)) (finallyBlock d)"
    and "exitCode (snd (run s0)) = Some 1"
  shows "(\<exists>x. endSession d = Throws x) \<or> (\<exists>x. close d = Throws x)"
proof -
  obtain s1 r where b: "body s0 = (s1, r)" by (cases "body s0")
  show ?thesis
  proof (cases r)
    case Ok
    then show ?thesis
      using b assms script_on_success [where body = body, of s0 s1 cl d]
      by (auto simp: finallyBlock_result split: outcome.splits if_splits)
  next
    case (Throw e)
    then show ?thesis
      using b assms script_on_failure [where body = body, of s0 s1 e cl d]
      by (auto simp: catchBlock_result finallyBlock_result split: outcome.splits if_splits)
  next
    case Hang
    then show ?thesis
      using b assms script_on_hang [where body = body, of s0 s1 cl d] by simp
  qed
qed

lemma exit_after_failure:
  assumes "run = tryFinally (tryCatch body (catchBlock cl d)) (finallyBlock d)"
    and "body s0 = (s1, Throw e)"
  shows "LogError (code e) (orNA (codeName e)) (message e) \<in> set (trace (fst (run s0)))"
    and "LogCategory (cl e) \<in> set (trace (fst (run s0)))"
    and "exitCode (snd (run s0)) = Some 0 \<longleftrightarrow>
           \<not> (session s1 \<and> inTransaction d \<and> abortTransaction d = Hangs)
           \<and> (session s1 \<longrightarrow> endSession d = Returns) \<and> close d = Returns"
    and "exitCode (snd (run s0)) = Some 1 \<longleftrightarrow>
           \<not> (session s1 \<and> inTransaction d \<and> abortTransaction d = Hangs)
           \<and> ((session s1 \<and> (\<exists>x. endSession d = Throws x))
               \<or> ((session s1 \<longrightarrow> endSession d = Returns) \<and> (\<exists>x. close d = Throws x)))"
    and "exitCode (snd (run s0)) = None \<longleftrightarrow>
           (session s1 \<and> inTransaction d \<and> abortTransaction d = Hangs)
           \<or> (session s1 \<and> endSession d = Hangs)
           \<or> ((session s1 \<longrightarrow> endSession d = Returns) \<and> close d = Hangs)"
proof -
  have f: "run s0 = (case catchBlock cl d e s1 of
              (s2, Hang) \<Rightarrow> (s2, Hang)
            | (s2, r) \<Rightarrow>
                (case finallyBlock d s2 of (s3, Ok) \<Rightarrow> (s3, r) | (s3, r') \<Rightarrow> (s3, r')))"
    unfolding assms(1) using assms(2) by (rule script_on_failure)
  show "LogError (code e) (orNA (codeName e)) (message e) \<in> set (trace (fst (run s0)))"
    by (simp add: f catchBlock_result finallyBlock_result split: outcome.splits)
  show "LogCategory (cl e) \<in> set (trace (fst (run s0)))"
    by (simp add: f catchBlock_result finallyBlock_result split: outcome.splits)
  show "exitCode (snd (run s0)) = Some 0 \<longleftrightarrow>
           \<not> (session s1 \<and> inTransaction d \<and> abortTransaction d = Hangs)
           \<and> (session s1 \<longrightarrow> endSession d = Returns) \<and> close d = Returns"
    by (cases "abortTransaction d"; cases "endSession d"; cases "close d")
       (simp_all add: f catchBlock_result finallyBlock_result)
  show "exitCode (snd (run s0)) = Some 1 \<longleftrightarrow>
           \<not> (session s1 \<and> inTransaction d \<and> abortTransaction d = Hangs)
           \<and> ((session s1 \<and> (\<exists>x. endSession d = Throws x))
               \<or> ((session s1 \<longrightarrow> endSession d = Returns) \<and> (\<exists>x. close d = Throws x)))"
    by (cases "abortTransaction d"; cases "endSession d"; cases "close d")
       (simp_all add: f catchBlock_result finallyBlock_result)
  show "exitCode (snd (run s0)) = None \<longleftrightarrow>
           (session s1 \<and> inTransaction d \<and> abortTransaction d = Hangs)
           \<or> (session s1 \<and> endSession d = Hangs)
           \<or> ((session s1 \<longrightarrow> endSession d = Returns) \<and> close d = Hangs)"
    by (cases "abortTransaction d"; cases "endSession d"; cases "close d")
       (simp_all add: f catchBlock_result finallyBlock_result)
qed

subsection \<open>The scripts without timeouts\<close>

lemma uri_noTimeout:
  "uriOption MONGO_URI_noTimeout ''socketTimeoutMS'' = Some ''0''"
  "uriOption MONGO_URI_noTimeout ''serverSelectionTimeoutMS'' = Some ''300000''"
  by (simp_all add: uriOption_def MONGO_URI_noTimeout_def)

lemma cleanup_usesNoTimeout: "isCleanupEvent ev \<Longrightarrow> usesNoTimeout ev"
  by (cases ev) simp_all

lemma cleanup_list_usesNoTimeout: "list_all isCleanupEvent tr \<Longrightarrow> list_all usesNoTimeout tr"
  by (induction tr) (simp_all add: cleanup_usesNoTimeout)

lemma noTimeout_insertLoop: "emitsOnly usesNoTimeout (insertLoop d)"
  unfolding insertLoop_def
  by (rule emitsOnly_seqs) (simp add: list_all_iff emitsOnly_call)

lemma noTimeout_countdown: "emitsOnly usesNoTimeout (countdown n)"
  unfolding countdown_def
  by (rule emitsOnly_seqs) (simp add: list_all_iff emitsOnly_sleep)

lemma noTimeout_runTransactionNoTimeout: "emitsOnly usesNoTimeout (runTransactionNoTimeout_try d)"
  unfolding runTransactionNoTimeout_try_def
  by (rule emitsOnly_seqs) (simp add: emitsOnly_intros)

lemma noTimeout_runTransactionHangOnCommit:
  "emitsOnly usesNoTimeout (runTransactionHangOnCommit_try d)"
  unfolding runTransactionHangOnCommit_try_def
  by (rule emitsOnly_seqs) (simp add: emitsOnly_intros noTimeout_insertLoop noTimeout_countdown)

lemma noTimeout_runTransactionHangPause:
  "emitsOnly usesNoTimeout (runTransactionHangPause_try d)"
  unfolding runTransactionHangPause_try_def
  by (rule emitsOnly_seqs) (simp add: emitsOnly_intros noTimeout_insertLoop noTimeout_countdown)

lemma commit_is_last_of_try:
  assumes "body \<in> {runTransactionNoTimeout_try d, runTransactionHangOnCommit_try d,
                     runTransactionHangPause_try d}"
    and "body initial = (s1, r)" and "CommitTransaction \<in> set (trace s1)"
  shows "r = fromOutcome (commitTransaction d) \<and> last (trace s1) = CommitTransaction"
  using assms
  by (auto simp: runTransactionNoTimeout_try_result runTransactionHangOnCommit_try_result
        runTransactionHangPause_try_result completed_def Let_def split: if_splits)

lemma unbounded_run:
  fixes cl :: "jserror \<Rightarrow> category"
  assumes "emitsOnly usesNoTimeout body"
    and "body \<in> {runTransactionNoTimeout_try d, runTransactionHangOnCommit_try d,
                   runTransactionHangPause_try d}"
  defines "final \<equiv> tryFinally (tryCatch body (catchBlock cl d)) (finallyBlock d) initial"
  shows "list_all usesNoTimeout (trace (fst final))"
    and "commitTransaction d = Hangs \<and> CommitTransaction \<in> set (trace (fst final)) \<longrightarrow>
           snd final = Hang \<and> last (trace (fst final)) = CommitTransaction"
proof -
  obtain s1 r where b: "body initial = (s1, r)" by (cases "body initial")
  from script_trace [of body cl d initial] obtain rest
    where t: "trace (fst final) = trace s1 @ rest" and c: "list_all isCleanupEvent rest"
    unfolding final_def using b by auto
  have "list_all usesNoTimeout (trace s1)"
    using emitsOnly_initial [OF assms(1) b] .
  then show "list_all usesNoTimeout (trace (fst final))"
    using t cleanup_list_usesNoTimeout [OF c] by simp
  show "commitTransaction d = Hangs \<and> CommitTransaction \<in> set (trace (fst final)) \<longrightarrow>
          snd final = Hang \<and> last (trace (fst final)) = CommitTransaction"
  proof
    assume h: "commitTransaction d = Hangs \<and> CommitTransaction \<in> set (trace (fst final))"
    have "CommitTransaction \<notin> set rest"
      using c by (induction rest) auto
    then have "CommitTransaction \<in> set (trace s1)" using h t by simp
    from commit_is_last_of_try [OF assms(2) b this] h
    have r: "r = Hang" and l: "last (trace s1) = CommitTransaction"
      by (simp_all add: fromOutcome_def)
    have "final = (s1, Hang)"
      unfolding final_def using b r script_on_hang [where body = body, of initial s1 cl d]
      by simp
    then show "snd final = Hang \<and> last (trace (fst final)) = CommitTransaction"
      using l by simp
  qed
qed

subsection \<open>The order of the operations and the countdown\<close>











subsection \<open>What is issued when the calls before it return\<close>









subsection \<open>Two runs that fail at the update, and one that hangs in the commit\<close>

lemma inTransaction_loseMajority: "inTransaction loseMajority"
  by (simp add: loseMajority_def)

lemma loseMajority_try:
  "runTransaction_try Map.empty loseMajority initial =
     (\<lparr> trace = [Connect MONGO_URI_runTransaction, CreateIndex, StartSession,
                  StartTransaction (transactionOptions_runTransaction Map.empty),
                  InsertOne 1 (operationOptions_runTransaction Map.empty), Sleep 700,
                  UpdateOne (operationOptions_runTransaction Map.empty)],
         session = True \<rparr>, Throw writeConcernFailed)"
  by (simp add: runTransaction_try_result loseMajority_def allReturn_def completed_def
        fromOutcome_def)

lemma endSessionFails_try:
  "runTransaction_try Map.empty endSessionFails initial =
     (\<lparr> trace = [Connect MONGO_URI_runTransaction, CreateIndex, StartSession,
                  StartTransaction (transactionOptions_runTransaction Map.empty),
                  InsertOne 1 (operationOptions_runTransaction Map.empty), Sleep 700,
                  UpdateOne (operationOptions_runTransaction Map.empty)],
         session = True \<rparr>, Throw writeConcernFailed)"
  by (simp add: runTransaction_try_result endSessionFails_def allReturn_def completed_def
        fromOutcome_def)

lemma abortHangs_try:
  "runTransaction_try Map.empty abortHangs initial =
     (\<lparr> trace = [Connect MONGO_URI_runTransaction, CreateIndex, StartSession,
                  StartTransaction (transactionOptions_runTransaction Map.empty),
                  InsertOne 1 (operationOptions_runTransaction Map.empty), Sleep 700,
                  UpdateOne (operationOptions_runTransaction Map.empty)],
         session = True \<rparr>, Throw writeConcernFailed)"
  by (simp add: runTransaction_try_result abortHangs_def allReturn_def completed_def
        fromOutcome_def)

lemma endSessionFails_runTransaction:
  "runTransaction Map.empty endSessionFails initial =
     (\<lparr> trace = [Connect MONGO_URI_runTransaction, CreateIndex, StartSession,
                  StartTransaction (transactionOptions_runTransaction Map.empty),
                  InsertOne 1 (operationOptions_runTransaction Map.empty), Sleep 700,
                  UpdateOne (operationOptions_runTransaction Map.empty),
                  LogError (JSNumber 64) (JSString ''WriteConcernFailed'')
                    ''waiting for replication timed out'',
                  LogCategory WriteConcernTimeout, AbortTransaction, EndSession],
         session = True \<rparr>, Throw noPrimary)"
  unfolding runTransaction_def
    script_on_failure [where body = "runTransaction_try Map.empty endSessionFails",
                       OF endSessionFails_try]
  by (simp add: catchBlock_result finallyBlock_result endSessionFails_def allReturn_def
        chain_runTransaction operationTimeoutCoded_def writeConcernCoded_def
        writeConcernFailed_def orNA_def)

lemma abortHangs_runTransaction:
  "runTransaction Map.empty abortHangs initial =
     (\<lparr> trace = [Connect MONGO_URI_runTransaction, CreateIndex, StartSession,
                  StartTransaction (transactionOptions_runTransaction Map.empty),
                  InsertOne 1 (operationOptions_runTransaction Map.empty), Sleep 700,
                  UpdateOne (operationOptions_runTransaction Map.empty),
                  LogError (JSNumber 64) (JSString ''WriteConcernFailed'')
                    ''waiting for replication timed out'',
                  LogCategory WriteConcernTimeout, AbortTransaction],
         session = True \<rparr>, Hang)"
  unfolding runTransaction_def
    script_on_failure [where body = "runTransaction_try Map.empty abortHangs",
                       OF abortHangs_try]
  by (simp add: catchBlock_result abortHangs_def allReturn_def
        chain_runTransaction operationTimeoutCoded_def writeConcernCoded_def
        writeConcernFailed_def orNA_def)


lemma commitHangs_runTransaction:
  "runTransaction env commitHangs initial =
     (\<lparr> trace = [Connect MONGO_URI_runTransaction, CreateIndex, StartSession,
                  StartTransaction (transactionOptions_runTransaction env),
                  InsertOne 1 (operationOptions_runTransaction env), Sleep 700,
                  UpdateOne (operationOptions_runTransaction env), CommitTransaction],
         session = True \<rparr>, Hang)"
proof -
  have b: "runTransaction_try env commitHangs initial =
     (\<lparr> trace = [Connect MONGO_URI_runTransaction, CreateIndex, StartSession,
                  StartTransaction (transactionOptions_runTransaction env),
                  InsertOne 1 (operationOptions_runTransaction env), Sleep 700,
                  UpdateOne (operationOptions_runTransaction env), CommitTransaction],
         session = True \<rparr>, Hang)"
    by (simp add: runTransaction_try_result commitHangs_def allReturn_def completed_def
          fromOutcome_def)
  show ?thesis
    unfolding runTransaction_def
      script_on_hang [where body = "runTransaction_try env commitHangs", OF b]
    by simp
qed

subsection \<open>No script starts its transaction twice\<close>

lemma cleanup_no_start:
  assumes "list_all isCleanupEvent rest"
  shows "filter isStartTransaction rest = []"
  using assms by (induction rest) (auto elim: isCleanupEvent.elims)

lemma try_starts_transaction_once:
  assumes "body \<in> {runTransaction_try env d, runTransactionNoTimeout_try d,
                     runTransactionHangOnCommit_try d, runTransactionHangPause_try d}"
  shows "length (filter isStartTransaction (trace (fst (body initial)))) \<le> 1"
  using assms
  by (auto simp: runTransaction_try_result runTransactionNoTimeout_try_result
        runTransactionHangOnCommit_try_result runTransactionHangPause_try_result
        completed_def Let_def)

lemma starts_transaction_once:
  assumes "(run, body, cl) \<in> scripts env d"
  shows "length (filter isStartTransaction (trace (fst (run initial)))) \<le> 1"
proof -
  from scripts_cases [OF assms]
  have r: "run = tryFinally (tryCatch body (catchBlock cl d)) (finallyBlock d)" by simp
  have m: "body \<in> {runTransaction_try env d, runTransactionNoTimeout_try d,
                     runTransactionHangOnCommit_try d, runTransactionHangPause_try d}"
    using assms by (auto simp: scripts_def)
  from script_trace [of body cl d initial] obtain rest
    where t: "trace (fst (run initial)) = trace (fst (body initial)) @ rest"
      and c: "list_all isCleanupEvent rest"
    unfolding r by auto
  show ?thesis
    using try_starts_transaction_once [OF m] cleanup_no_start [OF c] by (simp add: t)
qed

section \<open>Precedence of the commit timeout over the retryable label\<close>

text \<open>
  The claim C1 as stated fails: an error that carries the label
  \<^verbatim>\<open>TransientTransactionError\<close> and the name \<^verbatim>\<open>ExceededTimeLimit\<close>,
  with the code 50 of an operation timeout, is reported by the first test of each chain,
  as an operation timeout.
\<close>

theorem commit_timeout_name_with_operation_code:
  "hasTransientLabel commitNamedOperationCoded
   \<and> commitTimeoutCoded commitNamedOperationCoded
   \<and> classify_runTransaction commitNamedOperationCoded = OperationTimeout
   \<and> classify_runTransactionNoTimeout commitNamedOperationCoded = OperationTimeout
   \<and> classify_runTransactionHangOnCommit commitNamedOperationCoded = OperationTimeout"
  by (simp add: chain_defs commitNamedOperationCoded_def hasTransientLabel_def)

text \<open>
  C1, amended. In the chains of \<^verbatim>\<open>runTransaction\<close>,
  \<^verbatim>\<open>runTransactionNoTimeout\<close> and \<^verbatim>\<open>runTransactionHangOnCommit\<close>, an
  error that carries the retryable label and has the name \<^verbatim>\<open>ExceededTimeLimit\<close>
  or the code 262 is never reported as retryable; when it matches neither the test of the
  operation timeout nor the test of the write concern, it is reported as a commit timeout,
  and the catch block, the session being in a transaction, goes on to call
  \<^verbatim>\<open>abortTransaction\<close>.
\<close>

theorem commit_timeout_outranks_retryable_label:
  assumes "classify \<in> {classify_runTransaction, classify_runTransactionNoTimeout,
                         classify_runTransactionHangOnCommit}"
    and "commitTimeoutCoded f" and "hasTransientLabel f"
  shows "classify f \<noteq> Retryable
         \<and> (\<not> operationTimeoutCoded f \<and> \<not> writeConcernCoded f \<longrightarrow>
              classify f = CommitTimeout
              \<and> (session s \<and> inTransaction d \<longrightarrow>
                    (\<exists>rest. trace (fst (catchBlock classify d f s)) =
                       trace s @ [LogError (code f) (orNA (codeName f)) (message f),
                                  LogCategory CommitTimeout, AbortTransaction] @ rest)))"
proof -
  have c: "classify f = (if operationTimeoutCoded f then OperationTimeout
                         else if writeConcernCoded f then WriteConcernTimeout
                         else CommitTimeout)"
    using assms(1,2) by (auto simp: chain_forms)
  have h: "session s \<and> inTransaction d \<longrightarrow>
             (\<exists>rest. trace (fst (catchBlock classify d f s)) =
                trace s @ [LogError (code f) (orNA (codeName f)) (message f),
                           LogCategory (classify f), AbortTransaction] @ rest)"
    using catchBlock_abort_follows [of s d classify f] by blast
  show ?thesis using c h by auto
qed

text \<open>A labelled commit timeout with its own code 262.\<close>

theorem commit_timeout_outranks_retryable_label_witness:
  "classify_runTransaction labelledCommitTimeout = CommitTimeout
   \<and> classify_runTransaction labelledCommitTimeout \<noteq> Retryable
   \<and> (\<exists>rest. trace (fst (catchBlock classify_runTransaction loseMajority
                             labelledCommitTimeout inTransactionState)) =
         trace inTransactionState
         @ [LogError (JSNumber 262) (JSString ''ExceededTimeLimit'')
              ''operation exceeded time limit'',
            LogCategory CommitTimeout, AbortTransaction] @ rest)"
  using commit_timeout_outranks_retryable_label
          [of classify_runTransaction labelledCommitTimeout inTransactionState loseMajority]
  by (simp add: chain_defs labelledCommitTimeout_def hasTransientLabel_def
        inTransactionState_def loseMajority_def orNA_def)

section \<open>The chains are total and fall through to the last branch\<close>

text \<open>
  C2. Each of the four chains gives every error one category. The category depends only
  on the code, the name and the presence of the retryable label; an error that passes
  none of the tests (operation timeout, write concern, commit timeout, retryable label,
  a name of a change of primary) gets \<open>Unclassified\<close>; and the catch block that
  evaluates the chain never throws, whatever the abort does.
\<close>

theorem chain_total_and_falls_through:
  assumes "classify \<in> {classify_runTransaction, classify_runTransactionNoTimeout,
                         classify_runTransactionHangOnCommit,
                         classify_runTransactionHangPause}"
  shows "(\<not> operationTimeoutCoded f \<and> \<not> writeConcernCoded f \<and> \<not> commitTimeoutCoded f
            \<and> \<not> hasTransientLabel f \<and> \<not> topologyNamed f \<longrightarrow> classify f = Unclassified)
         \<and> (code f = code g \<and> codeName f = codeName g
              \<and> hasTransientLabel f = hasTransientLabel g \<longrightarrow> classify f = classify g)
         \<and> (\<forall>x. snd (catchBlock classify d f s) \<noteq> Throw x)"
proof -
  have a: "\<not> operationTimeoutCoded f \<and> \<not> writeConcernCoded f \<and> \<not> commitTimeoutCoded f
            \<and> \<not> hasTransientLabel f \<and> \<not> topologyNamed f \<longrightarrow> classify f = Unclassified"
    using assms by (auto simp: chain_forms topologyNamed_def)
  have b: "code f = code g \<and> codeName f = codeName g
            \<and> hasTransientLabel f = hasTransientLabel g \<longrightarrow> classify f = classify g"
    using assms
    by (auto simp: chain_forms operationTimeoutCoded_def writeConcernCoded_def
          commitTimeoutCoded_def)
  show ?thesis using a b catchBlock_never_throws by blast
qed

text \<open>A duplicate-key error matches no test; its message plays no part.\<close>

theorem chain_total_and_falls_through_witness:
  "classify_runTransaction duplicateKey = Unclassified
   \<and> classify_runTransaction duplicateKey
       = classify_runTransaction (duplicateKey\<lparr> message := ''another message'' \<rparr>)
   \<and> snd (catchBlock classify_runTransaction loseMajority duplicateKey inTransactionState)
       \<noteq> Throw noPrimary"
  using chain_total_and_falls_through
          [of classify_runTransaction duplicateKey
              "duplicateKey\<lparr> message := ''another message'' \<rparr>"
              loseMajority inTransactionState]
  by (simp add: chain_defs duplicateKey_def hasTransientLabel_def)

section \<open>Negative timeouts\<close>

text \<open>
  The claim C3 as stated fails: no script validates a timeout. With the three variables
  set to \<^verbatim>\<open>-5\<close> and a driver whose calls all return,
  \<^verbatim>\<open>runTransaction\<close> connects, starts the transaction with
  \<^verbatim>\<open>wtimeout: -5\<close> and \<^verbatim>\<open>maxCommitTimeMS: -5\<close>, issues its
  operations with \<^verbatim>\<open>maxTimeMS: -5\<close>, commits and completes.
\<close>

theorem negative_timeout_run_starts:
  "runTransaction negativeEnv allReturn initial =
     (\<lparr> trace = [Connect MONGO_URI_runTransaction, CreateIndex, StartSession,
                  StartTransaction
                    \<lparr> writeConcern = \<lparr> w = ''majority'', wtimeout = Some (Num (- 5)) \<rparr>,
                      readConcernLevel = ''majority'',
                      maxCommitTimeMS = Some (Num (- 5)) \<rparr>,
                  InsertOne 1 \<lparr> maxTimeMS = Some (Num (- 5)) \<rparr>, Sleep 700,
                  UpdateOne \<lparr> maxTimeMS = Some (Num (- 5)) \<rparr>, CommitTransaction,
                  EndSession, Close],
         session = True \<rparr>, Ok)"
  by (simp add: allReturn_runTransaction transactionOptions_runTransaction_def
        operationOptions_runTransaction_def W_TIMEOUT_MS_def MAX_COMMIT_MS_def
        OP_MAXTIME_MS_def negativeEnv_def orDefault_def parse_defs)

text \<open>
  C3, amended. A timeout variable whose value parses to a negative integer passes that
  integer unchanged into the options of the transaction or of the operations; whatever
  the environment holds, a run of \<^verbatim>\<open>runTransaction\<close> begins by connecting, and
  it starts the transaction with these options once connecting and starting the session
  have returned.
\<close>

theorem negative_timeout_passes_unvalidated:
  "(env ''W_TIMEOUT_MS'' = Some s \<and> parseInt10 s = Num v \<and> v < 0 \<longrightarrow>
      wtimeout (writeConcern (transactionOptions_runTransaction env)) = Some (Num v))
   \<and> (env ''MAX_COMMIT_MS'' = Some s \<and> parseInt10 s = Num v \<and> v < 0 \<longrightarrow>
      maxCommitTimeMS (transactionOptions_runTransaction env) = Some (Num v))
   \<and> (env ''OP_MAXTIME_MS'' = Some s \<and> parseInt10 s = Num v \<and> v < 0 \<longrightarrow>
      maxTimeMS (operationOptions_runTransaction env) = Some (Num v))
   \<and> (\<exists>rest. trace (fst (runTransaction env d initial))
                = Connect MONGO_URI_runTransaction # rest)
   \<and> (connect d = Returns \<and> createIndex d \<noteq> Hangs \<and> startSession d = Returns \<longrightarrow>
        StartTransaction (transactionOptions_runTransaction env)
          \<in> set (trace (fst (runTransaction env d initial))))"
proof -
  have ne: "parseInt10 s = Num v \<Longrightarrow> s \<noteq> []"
    using parseInt10_Nil by auto
  have a: "env ''W_TIMEOUT_MS'' = Some s \<and> parseInt10 s = Num v \<and> v < 0 \<longrightarrow>
      wtimeout (writeConcern (transactionOptions_runTransaction env)) = Some (Num v)"
    using ne variable_passes_through [of env "''W_TIMEOUT_MS''" s "''2000''"]
    by (auto simp: transactionOptions_runTransaction_def W_TIMEOUT_MS_def)
  have b: "env ''MAX_COMMIT_MS'' = Some s \<and> parseInt10 s = Num v \<and> v < 0 \<longrightarrow>
      maxCommitTimeMS (transactionOptions_runTransaction env) = Some (Num v)"
    using ne variable_passes_through [of env "''MAX_COMMIT_MS''" s "''1500''"]
    by (auto simp: transactionOptions_runTransaction_def MAX_COMMIT_MS_def)
  have c: "env ''OP_MAXTIME_MS'' = Some s \<and> parseInt10 s = Num v \<and> v < 0 \<longrightarrow>
      maxTimeMS (operationOptions_runTransaction env) = Some (Num v)"
    using ne variable_passes_through [of env "''OP_MAXTIME_MS''" s "''1000''"]
    by (auto simp: operationOptions_runTransaction_def OP_MAXTIME_MS_def)
  show ?thesis
    using a b c runTransaction_starts_with_connect [of env d]
      runTransaction_starts_transaction [of d env]
    by blast
qed

text \<open>The environment with the three variables set to \<^verbatim>\<open>-5\<close>.\<close>

theorem negative_timeout_passes_unvalidated_witness:
  "wtimeout (writeConcern (transactionOptions_runTransaction negativeEnv)) = Some (Num (- 5))
   \<and> maxCommitTimeMS (transactionOptions_runTransaction negativeEnv) = Some (Num (- 5))
   \<and> maxTimeMS (operationOptions_runTransaction negativeEnv) = Some (Num (- 5))
   \<and> (\<exists>rest. trace (fst (runTransaction negativeEnv allReturn initial))
                = Connect MONGO_URI_runTransaction # rest)
   \<and> StartTransaction (transactionOptions_runTransaction negativeEnv)
        \<in> set (trace (fst (runTransaction negativeEnv allReturn initial)))"
proof -
  have p: "parseInt10 ''-5'' = Num (- 5)" by (simp add: parse_defs)
  have e: "negativeEnv ''W_TIMEOUT_MS'' = Some ''-5''"
    "negativeEnv ''MAX_COMMIT_MS'' = Some ''-5''"
    "negativeEnv ''OP_MAXTIME_MS'' = Some ''-5''"
    by (simp_all add: negativeEnv_def)
  show ?thesis
    using negative_timeout_passes_unvalidated [of negativeEnv "''-5''" "- 5" allReturn] p e
    by (simp add: allReturn_def)
qed

section \<open>The abort after a failure\<close>

text \<open>
  C4. In each of the four scripts, when the try block fails with an error \<open>e\<close> after the
  session was started and \<^verbatim>\<open>session.inTransaction()\<close> answers true, the run
  calls \<^verbatim>\<open>abortTransaction\<close> exactly once; the only category line printed is the
  one the chain gives for \<open>e\<close>, with the raw fields of \<open>e\<close>; and when the abort itself
  throws, its message is printed and the run completes as its finally block completes,
  the error of the abort being dropped.
\<close>

theorem one_abort_keeps_original_failure:
  assumes "(run, body, classify) \<in> scripts env d"
    and "body initial = (s1, Throw e)" and "session s1" and "inTransaction d"
  shows "count_list (trace (fst (run initial))) AbortTransaction = 1
         \<and> (\<forall>c. LogCategory c \<in> set (trace (fst (run initial))) \<longleftrightarrow> c = classify e)
         \<and> LogError (code e) (orNA (codeName e)) (message e) \<in> set (trace (fst (run initial)))
         \<and> (\<forall>abortError. abortTransaction d = Throws abortError \<longrightarrow>
               LogAbortFailed (message abortError) \<in> set (trace (fst (run initial)))
               \<and> snd (run initial) = snd (finallyBlock d s1))"
proof -
  from scripts_cases [OF assms(1)]
  have r: "run = tryFinally (tryCatch body (catchBlock classify d)) (finallyBlock d)"
    and b: "emitsOnly isBodyEvent body" by simp_all
  note f = failure_in_transaction [OF b assms(2) assms(3) assms(4), where cl = classify, folded r]
  show ?thesis using f by simp
qed

text \<open>In that run the write-concern failure is reported, and the failed abort only printed.\<close>

theorem one_abort_keeps_original_failure_witness:
  "count_list (trace (fst (runTransaction Map.empty loseMajority initial))) AbortTransaction = 1
   \<and> LogCategory WriteConcernTimeout
        \<in> set (trace (fst (runTransaction Map.empty loseMajority initial)))
   \<and> LogAbortFailed ''Server selection timed out''
        \<in> set (trace (fst (runTransaction Map.empty loseMajority initial)))
   \<and> snd (runTransaction Map.empty loseMajority initial) = Ok"
proof -
  have m: "(runTransaction Map.empty loseMajority,
            runTransaction_try Map.empty loseMajority, classify_runTransaction)
           \<in> scripts Map.empty loseMajority"
    by (simp add: scripts_def)
  have s: "session \<lparr> trace = [Connect MONGO_URI_runTransaction, CreateIndex, StartSession,
                  StartTransaction (transactionOptions_runTransaction Map.empty),
                  InsertOne 1 (operationOptions_runTransaction Map.empty), Sleep 700,
                  UpdateOne (operationOptions_runTransaction Map.empty)],
         session = True \<rparr>" by simp
  have i: "inTransaction loseMajority" by (simp add: loseMajority_def)
  have a: "abortTransaction loseMajority = Throws noPrimary" by (simp add: loseMajority_def)
  from one_abort_keeps_original_failure [OF m loseMajority_try s i] a
  show ?thesis
    by (simp add: classify_runTransaction_def writeConcernFailed_def noPrimary_def
          finallyBlock_result loseMajority_def allReturn_def)
qed

section \<open>The scripts without timeouts put no bound on the commit\<close>

text \<open>
  C5. The scripts \<^verbatim>\<open>runTransactionNoTimeout\<close>,
  \<^verbatim>\<open>runTransactionHangOnCommit\<close> and \<^verbatim>\<open>runTransactionHangPause\<close>
  write neither \<^verbatim>\<open>wtimeout\<close> nor \<^verbatim>\<open>maxCommitTimeMS\<close> (nor
  \<^verbatim>\<open>maxTimeMS\<close> on an operation); their connection string sets
  \<^verbatim>\<open>socketTimeoutMS=0\<close> and \<^verbatim>\<open>serverSelectionTimeoutMS=300000\<close>;
  every call of a run carries these options; and when the commit is reached and never
  settles, the run never settles either: the commit is its last event and the process
  does not exit.
\<close>

theorem unbounded_scripts_put_no_bound_on_commit:
  assumes "run \<in> {runTransactionNoTimeout d, runTransactionHangOnCommit d,
                    runTransactionHangPause d}"
  shows "wtimeout (writeConcern transactionOptions_noTimeout) = None
         \<and> maxCommitTimeMS transactionOptions_noTimeout = None
         \<and> maxTimeMS operationOptions_noTimeout = None
         \<and> uriOption MONGO_URI_noTimeout ''socketTimeoutMS'' = Some ''0''
         \<and> uriOption MONGO_URI_noTimeout ''serverSelectionTimeoutMS'' = Some ''300000''
         \<and> list_all usesNoTimeout (trace (fst (run initial)))
         \<and> (commitTransaction d = Hangs \<and> CommitTransaction \<in> set (trace (fst (run initial)))
              \<longrightarrow> snd (run initial) = Hang
                  \<and> exitCode (snd (run initial)) = None
                  \<and> last (trace (fst (run initial))) = CommitTransaction)"
proof -
  have o: "wtimeout (writeConcern transactionOptions_noTimeout) = None
         \<and> maxCommitTimeMS transactionOptions_noTimeout = None
         \<and> maxTimeMS operationOptions_noTimeout = None"
    by (simp add: transactionOptions_noTimeout_def operationOptions_noTimeout_def)
  have r: "list_all usesNoTimeout (trace (fst (run initial)))
         \<and> (commitTransaction d = Hangs \<and> CommitTransaction \<in> set (trace (fst (run initial)))
              \<longrightarrow> snd (run initial) = Hang
                  \<and> last (trace (fst (run initial))) = CommitTransaction)"
    using assms
      unbounded_run [where body = "runTransactionNoTimeout_try d" and d = d
                       and cl = classify_runTransactionNoTimeout,
                     OF noTimeout_runTransactionNoTimeout]
      unbounded_run [where body = "runTransactionHangOnCommit_try d" and d = d
                       and cl = classify_runTransactionHangOnCommit,
                     OF noTimeout_runTransactionHangOnCommit]
      unbounded_run [where body = "runTransactionHangPause_try d" and d = d
                       and cl = classify_runTransactionHangPause,
                     OF noTimeout_runTransactionHangPause]
    by (auto simp: runTransactionNoTimeout_def runTransactionHangOnCommit_def
          runTransactionHangPause_def)
  show ?thesis using o r uri_noTimeout by auto
qed

text \<open>The run of \<^verbatim>\<open>runTransactionHangOnCommit\<close> whose commit never settles.\<close>

theorem unbounded_scripts_put_no_bound_on_commit_witness:
  "list_all usesNoTimeout (trace (fst (runTransactionHangOnCommit commitHangs initial)))
   \<and> CommitTransaction \<in> set (trace (fst (runTransactionHangOnCommit commitHangs initial)))
   \<and> snd (runTransactionHangOnCommit commitHangs initial) = Hang
   \<and> exitCode (snd (runTransactionHangOnCommit commitHangs initial)) = None
   \<and> last (trace (fst (runTransactionHangOnCommit commitHangs initial))) = CommitTransaction"
proof -
  have c: "CommitTransaction
             \<in> set (trace (fst (runTransactionHangOnCommit commitHangs initial)))"
    by (simp add: commitHangs_runTransactionHangOnCommit)
  have h: "commitTransaction commitHangs = Hangs" by (simp add: commitHangs_def)
  show ?thesis
    using unbounded_scripts_put_no_bound_on_commit
            [of "runTransactionHangOnCommit commitHangs" commitHangs] c h
    by simp
qed

section \<open>Unset timeout variables\<close>



section \<open>Errors of a change of primary\<close>

text \<open>
  The claim C7 as stated fails: an unlabelled \<^verbatim>\<open>NotWritablePrimary\<close> error that
  matches no earlier test is reported as \<open>Unclassified\<close> by the chain of
  \<^verbatim>\<open>runTransaction\<close>, which has no such test, and by the chain of
  \<^verbatim>\<open>runTransactionHangOnCommit\<close>.
\<close>

theorem topology_name_unclassified:
  "topologyNamed notWritablePrimary
   \<and> \<not> operationTimeoutCoded notWritablePrimary
   \<and> \<not> writeConcernCoded notWritablePrimary
   \<and> \<not> commitTimeoutCoded notWritablePrimary
   \<and> \<not> hasTransientLabel notWritablePrimary
   \<and> classify_runTransaction notWritablePrimary = Unclassified
   \<and> classify_runTransactionHangOnCommit notWritablePrimary = Unclassified"
  by (simp add: chain_defs notWritablePrimary_def hasTransientLabel_def)

text \<open>
  C7, amended. In \<^verbatim>\<open>runTransactionHangOnCommit\<close> an error named
  \<^verbatim>\<open>NotPrimaryOrSecondary\<close> or \<^verbatim>\<open>InterruptedDueToReplStateChange\<close>
  that matches none of the three timeout tests is reported as \<open>Retryable\<close> when it
  carries the label and as \<open>TopologyChange\<close> otherwise: the test of the names comes
  after the test of the label. In \<^verbatim>\<open>runTransactionHangPause\<close> the names
  \<^verbatim>\<open>NotWritablePrimary\<close> and \<^verbatim>\<open>NotPrimaryOrSecondary\<close> give
  \<open>TopologyChange\<close>. The chains of \<^verbatim>\<open>runTransaction\<close> and
  \<^verbatim>\<open>runTransactionNoTimeout\<close> never give \<open>TopologyChange\<close>. After a report
  of \<open>TopologyChange\<close> the catch block, the session being in a transaction, calls
  \<^verbatim>\<open>abortTransaction\<close>, and no run of any script starts a transaction a second
  time: nothing is retried.
\<close>

theorem topology_branch_per_script:
  "(codeName f \<in> {JSString ''NotPrimaryOrSecondary'',
                   JSString ''InterruptedDueToReplStateChange''}
      \<and> \<not> operationTimeoutCoded f \<and> \<not> writeConcernCoded f \<and> \<not> commitTimeoutCoded f \<longrightarrow>
      classify_runTransactionHangOnCommit f
        = (if hasTransientLabel f then Retryable else TopologyChange))
   \<and> (codeName f \<in> {JSString ''NotWritablePrimary'', JSString ''NotPrimaryOrSecondary''} \<longrightarrow>
        classify_runTransactionHangPause f = TopologyChange)
   \<and> classify_runTransaction f \<noteq> TopologyChange
   \<and> classify_runTransactionNoTimeout f \<noteq> TopologyChange
   \<and> (classify f = TopologyChange \<and> session s \<and> inTransaction d \<longrightarrow>
        (\<exists>rest. trace (fst (catchBlock classify d f s)) =
           trace s @ [LogError (code f) (orNA (codeName f)) (message f),
                      LogCategory TopologyChange, AbortTransaction] @ rest))
   \<and> ((run, body, chain) \<in> scripts env d \<longrightarrow>
        length (filter isStartTransaction (trace (fst (run initial)))) \<le> 1)"
proof -
  have a: "codeName f \<in> {JSString ''NotPrimaryOrSecondary'',
                   JSString ''InterruptedDueToReplStateChange''}
      \<and> \<not> operationTimeoutCoded f \<and> \<not> writeConcernCoded f \<and> \<not> commitTimeoutCoded f \<longrightarrow>
      classify_runTransactionHangOnCommit f
        = (if hasTransientLabel f then Retryable else TopologyChange)"
    by (auto simp: chain_forms)
  have b: "codeName f \<in> {JSString ''NotWritablePrimary'', JSString ''NotPrimaryOrSecondary''} \<longrightarrow>
        classify_runTransactionHangPause f = TopologyChange"
    by (auto simp: chain_forms)
  have c: "classify_runTransaction f \<noteq> TopologyChange"
    "classify_runTransactionNoTimeout f \<noteq> TopologyChange"
    by (simp_all add: chain_forms)
  have h: "classify f = TopologyChange \<and> session s \<and> inTransaction d \<longrightarrow>
        (\<exists>rest. trace (fst (catchBlock classify d f s)) =
           trace s @ [LogError (code f) (orNA (codeName f)) (message f),
                      LogCategory TopologyChange, AbortTransaction] @ rest)"
    using catchBlock_abort_follows [of s d classify f] by auto
  have n: "(run, body, chain) \<in> scripts env d \<longrightarrow>
        length (filter isStartTransaction (trace (fst (run initial)))) \<le> 1"
    using starts_transaction_once [of run body chain env d] by blast
  show ?thesis using a b c h n by blast
qed

text \<open>An interrupted operation in one script, a lost primary in the other.\<close>

theorem topology_branch_per_script_witness:
  "classify_runTransactionHangOnCommit interruptedByStepdown = TopologyChange
   \<and> classify_runTransactionHangPause notWritablePrimary = TopologyChange
   \<and> length (filter isStartTransaction
               (trace (fst (runTransaction Map.empty loseMajority initial)))) \<le> 1
   \<and> (\<exists>rest. trace (fst (catchBlock classify_runTransactionHangOnCommit loseMajority
                             interruptedByStepdown inTransactionState)) =
         trace inTransactionState
         @ [LogError (JSNumber 11602) (JSString ''InterruptedDueToReplStateChange'')
              ''operation was interrupted'',
            LogCategory TopologyChange, AbortTransaction] @ rest)"
  using topology_branch_per_script
          [of interruptedByStepdown classify_runTransactionHangOnCommit
              inTransactionState loseMajority "runTransaction Map.empty loseMajority"
              "runTransaction_try Map.empty loseMajority" classify_runTransaction Map.empty]
        topology_branch_per_script [of notWritablePrimary]
  by (simp add: chain_defs interruptedByStepdown_def notWritablePrimary_def
        hasTransientLabel_def inTransactionState_def scripts_def orNA_def
        inTransaction_loseMajority)

section \<open>The countdown before the commit\<close>



section \<open>The exit status after a failure that was caught\<close>

text \<open>
  The claim C9 as stated fails: a failure that was caught and reported does not always end
  in an exit with 0. In \<^verbatim>\<open>runTransaction\<close>, when the update fails with a
  write-concern error and \<^verbatim>\<open>endSession\<close> then throws, the category is printed
  and the process exits with 1; when the abort never settles, the category is printed and
  the process does not exit.
\<close>

theorem reported_failure_without_exit_zero:
  "runTransaction Map.empty endSessionFails initial =
     (\<lparr> trace = [Connect MONGO_URI_runTransaction, CreateIndex, StartSession,
                  StartTransaction (transactionOptions_runTransaction Map.empty),
                  InsertOne 1 (operationOptions_runTransaction Map.empty), Sleep 700,
                  UpdateOne (operationOptions_runTransaction Map.empty),
                  LogError (JSNumber 64) (JSString ''WriteConcernFailed'')
                    ''waiting for replication timed out'',
                  LogCategory WriteConcernTimeout, AbortTransaction, EndSession],
         session = True \<rparr>, Throw noPrimary)
   \<and> exitCode (snd (runTransaction Map.empty endSessionFails initial)) = Some 1
   \<and> runTransaction Map.empty abortHangs initial =
     (\<lparr> trace = [Connect MONGO_URI_runTransaction, CreateIndex, StartSession,
                  StartTransaction (transactionOptions_runTransaction Map.empty),
                  InsertOne 1 (operationOptions_runTransaction Map.empty), Sleep 700,
                  UpdateOne (operationOptions_runTransaction Map.empty),
                  LogError (JSNumber 64) (JSString ''WriteConcernFailed'')
                    ''waiting for replication timed out'',
                  LogCategory WriteConcernTimeout, AbortTransaction],
         session = True \<rparr>, Hang)
   \<and> exitCode (snd (runTransaction Map.empty abortHangs initial)) = None"
  by (simp add: endSessionFails_runTransaction abortHangs_runTransaction)

text \<open>
  C9, amended. In each of the four scripts, when the try block fails with an error
  \<open>e\<close>, the raw fields of \<open>e\<close> and the category of \<open>e\<close> are printed, and the
  failure itself never decides the exit status: the process exits with 0 exactly when the
  abort (if one is tried) settles and ending the session (if there is one) and closing the
  client return; it exits with 1 exactly when the abort settles and ending the session or
  closing the client throws; and it does not exit exactly when the abort, ending the
  session or closing the client never settles. In every run, an exit with 1 means that
  ending the session or closing the client threw.
\<close>

theorem caught_failure_exits_zero:
  assumes "(run, body, classify) \<in> scripts env d"
  shows "(body initial = (s1, Throw e) \<longrightarrow>
            LogError (code e) (orNA (codeName e)) (message e) \<in> set (trace (fst (run initial)))
            \<and> LogCategory (classify e) \<in> set (trace (fst (run initial)))
            \<and> (exitCode (snd (run initial)) = Some 0 \<longleftrightarrow>
                 \<not> (session s1 \<and> inTransaction d \<and> abortTransaction d = Hangs)
                 \<and> (session s1 \<longrightarrow> endSession d = Returns) \<and> close d = Returns)
            \<and> (exitCode (snd (run initial)) = Some 1 \<longleftrightarrow>
                 \<not> (session s1 \<and> inTransaction d \<and> abortTransaction d = Hangs)
                 \<and> ((session s1 \<and> (\<exists>x. endSession d = Throws x))
                     \<or> ((session s1 \<longrightarrow> endSession d = Returns)
                         \<and> (\<exists>x. close d = Throws x))))
            \<and> (exitCode (snd (run initial)) = None \<longleftrightarrow>
                 (session s1 \<and> inTransaction d \<and> abortTransaction d = Hangs)
                 \<or> (session s1 \<and> endSession d = Hangs)
                 \<or> ((session s1 \<longrightarrow> endSession d = Returns) \<and> close d = Hangs)))
         \<and> (exitCode (snd (run initial)) = Some 1 \<longrightarrow>
              (\<exists>x. endSession d = Throws x) \<or> (\<exists>x. close d = Throws x))"
proof -
  from scripts_cases [OF assms]
  have r: "run = tryFinally (tryCatch body (catchBlock classify d)) (finallyBlock d)"
    by simp
  show ?thesis
    using exit_after_failure [OF r, of initial s1 e] exit_one_only_from_finally [OF r, of initial]
    by blast
qed

text \<open>
  A write-concern failure with a failing abort exits with 0; the same failure followed by
  a failing \<^verbatim>\<open>endSession\<close> exits with 1.
\<close>

theorem caught_failure_exits_zero_witness:
  "LogCategory WriteConcernTimeout
     \<in> set (trace (fst (runTransaction Map.empty loseMajority initial)))
   \<and> exitCode (snd (runTransaction Map.empty loseMajority initial)) = Some 0
   \<and> exitCode (snd (runTransaction Map.empty endSessionFails initial)) = Some 1"
proof -
  let ?s1 = "\<lparr> trace = [Connect MONGO_URI_runTransaction, CreateIndex, StartSession,
                  StartTransaction (transactionOptions_runTransaction Map.empty),
                  InsertOne 1 (operationOptions_runTransaction Map.empty), Sleep 700,
                  UpdateOne (operationOptions_runTransaction Map.empty)],
         session = True \<rparr>"
  have m: "(runTransaction Map.empty loseMajority,
            runTransaction_try Map.empty loseMajority, classify_runTransaction)
           \<in> scripts Map.empty loseMajority"
    by (simp add: scripts_def)
  have m': "(runTransaction Map.empty endSessionFails,
            runTransaction_try Map.empty endSessionFails, classify_runTransaction)
           \<in> scripts Map.empty endSessionFails"
    by (simp add: scripts_def)
  have c: "classify_runTransaction writeConcernFailed = WriteConcernTimeout"
    by (simp add: classify_runTransaction_def writeConcernFailed_def)
  have d: "abortTransaction loseMajority = Throws noPrimary"
    "endSession loseMajority = Returns" "close loseMajority = Returns"
    by (simp_all add: loseMajority_def allReturn_def)
  have d': "abortTransaction endSessionFails = Returns"
    "endSession endSessionFails = Throws noPrimary"
    by (simp_all add: endSessionFails_def allReturn_def)
  have k: "LogCategory (classify_runTransaction writeConcernFailed)
             \<in> set (trace (fst (runTransaction Map.empty loseMajority initial)))
           \<and> exitCode (snd (runTransaction Map.empty loseMajority initial)) = Some 0"
    using caught_failure_exits_zero [OF m, of ?s1 writeConcernFailed] loseMajority_try d
    by simp
  have k': "exitCode (snd (runTransaction Map.empty endSessionFails initial)) = Some 1"
    using caught_failure_exits_zero [OF m', of ?s1 writeConcernFailed] endSessionFails_try d'
    by simp
  show ?thesis using k k' c by simp
qed

section \<open>Timeout variables that are no number\<close>

text \<open>
  The claim C10 as stated fails for the empty string: it parses to \<^verbatim>\<open>NaN\<close>, but
  a variable set to it is falsy, and the default is taken in its place.
\<close>

theorem empty_value_takes_default:
  "emptyValueEnv ''W_TIMEOUT_MS'' = Some ''''
   \<and> parseInt10 '''' = NaN
   \<and> W_TIMEOUT_MS emptyValueEnv = Num 2000
   \<and> wtimeout (writeConcern (transactionOptions_runTransaction emptyValueEnv))
       = Some (Num 2000)"
  by (simp add: emptyValueEnv_def parseInt10_Nil W_TIMEOUT_MS_def orDefault_def
        parseInt10_defaults transactionOptions_runTransaction_def)

text \<open>
  C10, amended. When a timeout variable is set to a non-empty string that
  \<^verbatim>\<open>parseInt\<close> reads as \<^verbatim>\<open>NaN\<close>, the constant is \<^verbatim>\<open>NaN\<close> and is
  written as it is into the options of the transaction or of the operations; nothing is
  rejected: the run begins by connecting, starts the transaction with these options once
  connecting and starting the session have returned, and then issues the insert with them.
  A variable set to the empty string takes its default.
\<close>

theorem unparseable_value_passes_as_NaN:
  "(env ''W_TIMEOUT_MS'' = Some s \<and> s \<noteq> [] \<and> parseInt10 s = NaN \<longrightarrow>
      W_TIMEOUT_MS env = NaN
      \<and> wtimeout (writeConcern (transactionOptions_runTransaction env)) = Some NaN)
   \<and> (env ''MAX_COMMIT_MS'' = Some s \<and> s \<noteq> [] \<and> parseInt10 s = NaN \<longrightarrow>
      MAX_COMMIT_MS env = NaN
      \<and> maxCommitTimeMS (transactionOptions_runTransaction env) = Some NaN)
   \<and> (env ''OP_MAXTIME_MS'' = Some s \<and> s \<noteq> [] \<and> parseInt10 s = NaN \<longrightarrow>
      OP_MAXTIME_MS env = NaN
      \<and> maxTimeMS (operationOptions_runTransaction env) = Some NaN)
   \<and> (\<exists>rest. trace (fst (runTransaction env d initial))
                = Connect MONGO_URI_runTransaction # rest)
   \<and> (connect d = Returns \<and> createIndex d \<noteq> Hangs \<and> startSession d = Returns \<longrightarrow>
        StartTransaction (transactionOptions_runTransaction env)
          \<in> set (trace (fst (runTransaction env d initial)))
        \<and> (startTransaction d = Returns \<longrightarrow>
             InsertOne 1 (operationOptions_runTransaction env)
               \<in> set (trace (fst (runTransaction env d initial)))))
   \<and> (env ''W_TIMEOUT_MS'' = Some [] \<longrightarrow> W_TIMEOUT_MS env = Num 2000)
   \<and> (env ''MAX_COMMIT_MS'' = Some [] \<longrightarrow> MAX_COMMIT_MS env = Num 1500)
   \<and> (env ''OP_MAXTIME_MS'' = Some [] \<longrightarrow> OP_MAXTIME_MS env = Num 1000)"
proof -
  have a: "env ''W_TIMEOUT_MS'' = Some s \<and> s \<noteq> [] \<and> parseInt10 s = NaN \<longrightarrow>
      W_TIMEOUT_MS env = NaN
      \<and> wtimeout (writeConcern (transactionOptions_runTransaction env)) = Some NaN"
    using variable_passes_through [of env "''W_TIMEOUT_MS''" s "''2000''"]
    by (auto simp: transactionOptions_runTransaction_def W_TIMEOUT_MS_def)
  have b: "env ''MAX_COMMIT_MS'' = Some s \<and> s \<noteq> [] \<and> parseInt10 s = NaN \<longrightarrow>
      MAX_COMMIT_MS env = NaN
      \<and> maxCommitTimeMS (transactionOptions_runTransaction env) = Some NaN"
    using variable_passes_through [of env "''MAX_COMMIT_MS''" s "''1500''"]
    by (auto simp: transactionOptions_runTransaction_def MAX_COMMIT_MS_def)
  have c: "env ''OP_MAXTIME_MS'' = Some s \<and> s \<noteq> [] \<and> parseInt10 s = NaN \<longrightarrow>
      OP_MAXTIME_MS env = NaN
      \<and> maxTimeMS (operationOptions_runTransaction env) = Some NaN"
    using variable_passes_through [of env "''OP_MAXTIME_MS''" s "''1000''"]
    by (auto simp: operationOptions_runTransaction_def OP_MAXTIME_MS_def)
  have e: "env ''W_TIMEOUT_MS'' = Some [] \<longrightarrow> W_TIMEOUT_MS env = Num 2000"
    "env ''MAX_COMMIT_MS'' = Some [] \<longrightarrow> MAX_COMMIT_MS env = Num 1500"
    "env ''OP_MAXTIME_MS'' = Some [] \<longrightarrow> OP_MAXTIME_MS env = Num 1000"
    by (simp_all add: W_TIMEOUT_MS_def MAX_COMMIT_MS_def OP_MAXTIME_MS_def orDefault_def
          parseInt10_defaults)
  show ?thesis
    using a b c e runTransaction_starts_with_connect [of env d]
      runTransaction_starts_transaction [of d env] runTransaction_inserts [of d env]
    by blast
qed

text \<open>
  The environment with the three variables set to \<^verbatim>\<open>fast\<close>, and the one with
  the three variables empty.
\<close>

theorem unparseable_value_passes_as_NaN_witness:
  "W_TIMEOUT_MS unparseableEnv = NaN
   \<and> MAX_COMMIT_MS unparseableEnv = NaN
   \<and> OP_MAXTIME_MS unparseableEnv = NaN
   \<and> StartTransaction
        \<lparr> writeConcern = \<lparr> w = ''majority'', wtimeout = Some NaN \<rparr>,
          readConcernLevel = ''majority'', maxCommitTimeMS = Some NaN \<rparr>
        \<in> set (trace (fst (runTransaction unparseableEnv allReturn initial)))
   \<and> InsertOne 1 \<lparr> maxTimeMS = Some NaN \<rparr>
        \<in> set (trace (fst (runTransaction unparseableEnv allReturn initial)))
   \<and> W_TIMEOUT_MS emptyValueEnv = Num 2000
   \<and> MAX_COMMIT_MS emptyValueEnv = Num 1500
   \<and> OP_MAXTIME_MS emptyValueEnv = Num 1000"
proof -
  have v: "emptyValueEnv ''W_TIMEOUT_MS'' = Some []"
    "emptyValueEnv ''MAX_COMMIT_MS'' = Some []"
    "emptyValueEnv ''OP_MAXTIME_MS'' = Some []"
    by (simp_all add: emptyValueEnv_def)
  have p: "parseInt10 ''fast'' = NaN" by (simp add: parse_defs)
  have e: "unparseableEnv ''W_TIMEOUT_MS'' = Some ''fast''"
    "unparseableEnv ''MAX_COMMIT_MS'' = Some ''fast''"
    "unparseableEnv ''OP_MAXTIME_MS'' = Some ''fast''"
    by (simp_all add: unparseableEnv_def)
  have o: "transactionOptions_runTransaction unparseableEnv =
             \<lparr> writeConcern = \<lparr> w = ''majority'', wtimeout = Some NaN \<rparr>,
               readConcernLevel = ''majority'', maxCommitTimeMS = Some NaN \<rparr>"
    "operationOptions_runTransaction unparseableEnv = \<lparr> maxTimeMS = Some NaN \<rparr>"
    by (simp_all add: transactionOptions_runTransaction_def
          operationOptions_runTransaction_def W_TIMEOUT_MS_def MAX_COMMIT_MS_def
          OP_MAXTIME_MS_def unparseableEnv_def orDefault_def p)
  show ?thesis
    using unparseable_value_passes_as_NaN [of unparseableEnv "''fast''" allReturn] p e o
      unparseable_value_passes_as_NaN [of emptyValueEnv] v
    by (simp add: allReturn_def)
qed

end
